theory Spec2Isabelle
  imports Main "HOL-Library.Word"
begin

unbundle bit_operations_syntax

section \<open>Machine values\<close>

type_synonym byte = "8 word"
type_synonym u32 = "32 word"

text \<open>
  C integers are modelled as \<open>int\<close>; the conversions the source performs implicitly are
  written out.  \<open>to_size_t\<close> is the conversion to the 64-bit \<open>size_t\<close> of an LP64 host,
  \<open>to_c_int\<close> the conversion back to a 32-bit \<open>int\<close>, \<open>to_u32\<close> the one to
  \<open>bpf_u_int32\<close>.
\<close>

definition to_size_t :: "int \<Rightarrow> int" where
  "to_size_t x = x mod 2 ^ 64"

definition to_c_int :: "int \<Rightarrow> int" where
  "to_c_int x = (x + 2 ^ 31) mod 2 ^ 32 - 2 ^ 31"

definition to_u32 :: "int \<Rightarrow> int" where
  "to_u32 x = x mod 2 ^ 32"

text \<open>What can go wrong below the level of return codes.\<close>

datatype fault = NullDeref | OutOfBoundsRead | OutOfBoundsWrite

text \<open>
  A call returns a value, waits for ever on a blocking socket, or faults.
\<close>

datatype 'a outcome = Returns 'a | Blocks | Faults fault

subsection \<open>Byte order\<close>

text \<open>
  \<open>be_bytes w\<close> are the four bytes of \<open>w\<close> in network order, \<open>host_bytes le w\<close> the
  bytes as the host keeps \<open>w\<close> in memory (\<open>le\<close>: the host is little-endian).
  \<open>ntohl\<close> and \<open>htonl\<close> are the C library's: \<open>ntohl\<close> reads the memory image of its
  argument as a network-order number, \<open>htonl\<close> gives the number whose memory image is
  the network-order encoding of its argument.
\<close>

definition be_bytes :: "u32 \<Rightarrow> byte list" where
  "be_bytes w = [ucast (drop_bit 24 w), ucast (drop_bit 16 w), ucast (drop_bit 8 w), ucast w]"

definition of_be_bytes :: "byte list \<Rightarrow> u32" where
  "of_be_bytes bs = foldl (\<lambda>acc b. push_bit 8 acc OR ucast b) 0 bs"

definition host_bytes :: "bool \<Rightarrow> u32 \<Rightarrow> byte list" where
  "host_bytes le w = (if le then rev (be_bytes w) else be_bytes w)"

definition of_host_bytes :: "bool \<Rightarrow> byte list \<Rightarrow> u32" where
  "of_host_bytes le bs = of_be_bytes (if le then rev bs else bs)"

definition ntohl :: "bool \<Rightarrow> u32 \<Rightarrow> u32" where
  "ntohl le x = of_be_bytes (host_bytes le x)"

definition htonl :: "bool \<Rightarrow> u32 \<Rightarrow> u32" where
  "htonl le x = of_host_bytes le (be_bytes x)"

section \<open>The capture bridge\<close>

text \<open>
  \<open>struct linux_sll\<close> is 16 bytes: \<open>pkttype\<close>, \<open>hatype\<close>, \<open>halen\<close>, \<open>addr[8]\<close>,
  \<open>family\<close>.  \<open>psample_pcap_buf_init\<close> zeroes it and stores
  \<open>htons(PACKET_OUTGOING)\<close> (4), \<open>htons(ARPHRD_NETLINK)\<close> (824) and
  \<open>htons(AF_NETLINK)\<close> (16), so its memory image is the same on every host.
\<close>

definition sizeof_linux_sll :: int where
  "sizeof_linux_sll = 16"

definition linux_sll_bytes :: "byte list" where
  "linux_sll_bytes = [0x00, 0x04, 0x03, 0x38, 0x00, 0x00] @ replicate 8 0x00 @ [0x00, 0x10]"

text \<open>
  One record of the capture file, as \<open>pcap_dump\<close> appends it: the two length fields of
  \<open>struct pcap_pkthdr\<close> and the \<open>caplen\<close> bytes it copies from the buffer it is
  given.  The time stamp is left out.
\<close>

record pcap_frame =
  hdr_caplen :: int
  hdr_len :: int
  frame_bytes :: "byte list"

text \<open>
  \<open>struct psample_pcap\<close>.  \<open>pcap_buf\<close> is the content of the buffer the field points
  to, \<open>pcap_dumper\<close> the frames written to the sink so far.
\<close>

record psample_pcap =
  snaplen :: int
  pcap_buf :: "byte list"
  pcap_dumper :: "pcap_frame list"

text \<open>
  \<open>psample_pcap_buf_init\<close>: \<open>calloc(1, snaplen)\<close>, then the cooked header is copied to
  the front.  \<open>calloc_ok\<close> tells whether the allocation succeeds.  A buffer shorter than
  the header would be overrun by the \<open>memcpy\<close>.
\<close>

definition psample_pcap_buf_init :: "bool \<Rightarrow> psample_pcap \<Rightarrow> (int \<times> psample_pcap) outcome" where
  "psample_pcap_buf_init calloc_ok p =
     (if \<not> calloc_ok then Returns (- 1, p)
      else if snaplen p < sizeof_linux_sll then Faults OutOfBoundsWrite
      else Returns (0, p\<lparr>pcap_buf :=
             linux_sll_bytes @ replicate (nat (snaplen p - sizeof_linux_sll)) 0\<rparr>))"

text \<open>
  \<open>psample_pcap_write(data, buf, len)\<close>.  \<open>mem\<close> is the memory that starts at \<open>buf\<close>:
  the \<open>memcpy\<close> reads \<open>pkt_len\<close> bytes of it, whatever \<open>len\<close> is, and writes them
  behind the header in \<open>pcap_buf\<close>; \<open>pcap_dump\<close> then copies \<open>hdr.caplen\<close> bytes from
  the start of \<open>pcap_buf\<close>.  The comparison is made in \<open>size_t\<close>, \<open>pkt_len\<close> is an
  \<open>int\<close>, \<open>caplen\<close> a \<open>bpf_u_int32\<close>.  Reading past \<open>mem\<close> or writing past
  \<open>pcap_buf\<close> is a fault.
\<close>

definition psample_pcap_write :: "psample_pcap \<Rightarrow> byte list \<Rightarrow> int \<Rightarrow> fault + psample_pcap" where
  "psample_pcap_write p mem len =
     (let pkt_len =
            (if to_size_t (to_size_t len + sizeof_linux_sll) < to_size_t (snaplen p)
             then to_c_int (to_size_t (to_size_t len + sizeof_linux_sll))
             else to_c_int (to_size_t (to_size_t (snaplen p) - sizeof_linux_sll)));
          n = nat (to_size_t pkt_len);
          hd_len = nat sizeof_linux_sll
      in if length mem < n then Inl OutOfBoundsRead
         else if length (pcap_buf p) < hd_len + n then Inl OutOfBoundsWrite
         else
           (let buf' = take hd_len (pcap_buf p) @ take n mem @ drop (hd_len + n) (pcap_buf p);
                cap = to_u32 pkt_len
            in if int (length buf') < cap then Inl OutOfBoundsRead
               else Inr (p\<lparr>pcap_buf := buf',
                           pcap_dumper := pcap_dumper p @
                             [\<lparr>hdr_caplen = cap, hdr_len = cap,
                               frame_bytes = take (nat cap) buf'\<rparr>]\<rparr>)))"

section \<open>Constants of the system headers\<close>

text \<open>
  The values of \<open>errno.h\<close>, \<open>libmnl.h\<close>, \<open>linux/netlink.h\<close> and
  \<open>linux/psample.h\<close> that the source names.  \<open>PSAMPLE_ATTR_MAX\<close> is the id of the
  last attribute of the header the source was written against, \<open>PSAMPLE_ATTR_PROTO\<close>.
\<close>

definition ENOENT :: int where "ENOENT = 2"
definition EWOULDBLOCK :: int where "EWOULDBLOCK = 11"
definition ENOMEM :: int where "ENOMEM = 12"
definition EINVAL :: int where "EINVAL = 22"
definition ENOSPC :: int where "ENOSPC = 28"
definition ERANGE :: int where "ERANGE = 34"
definition EOPNOTSUPP :: int where "EOPNOTSUPP = 95"

definition MNL_CB_ERROR :: int where "MNL_CB_ERROR = - 1"
definition MNL_CB_STOP :: int where "MNL_CB_STOP = 0"
definition MNL_CB_OK :: int where "MNL_CB_OK = 1"

definition NLA_TYPE_MASK :: "16 word" where "NLA_TYPE_MASK = 0x3fff"

definition PSAMPLE_ATTR_IIFINDEX :: nat where "PSAMPLE_ATTR_IIFINDEX = 0"
definition PSAMPLE_ATTR_OIFINDEX :: nat where "PSAMPLE_ATTR_OIFINDEX = 1"
definition PSAMPLE_ATTR_ORIGSIZE :: nat where "PSAMPLE_ATTR_ORIGSIZE = 2"
definition PSAMPLE_ATTR_SAMPLE_GROUP :: nat where "PSAMPLE_ATTR_SAMPLE_GROUP = 3"
definition PSAMPLE_ATTR_GROUP_SEQ :: nat where "PSAMPLE_ATTR_GROUP_SEQ = 4"
definition PSAMPLE_ATTR_SAMPLE_RATE :: nat where "PSAMPLE_ATTR_SAMPLE_RATE = 5"
definition PSAMPLE_ATTR_DATA :: nat where "PSAMPLE_ATTR_DATA = 6"
definition PSAMPLE_ATTR_GROUP_REFCOUNT :: nat where "PSAMPLE_ATTR_GROUP_REFCOUNT = 7"
definition PSAMPLE_ATTR_PROTO :: nat where "PSAMPLE_ATTR_PROTO = 14"
definition PSAMPLE_ATTR_MAX :: nat where "PSAMPLE_ATTR_MAX = 14"

definition PSAMPLE_CMD_SAMPLE :: byte where "PSAMPLE_CMD_SAMPLE = 0"

text \<open>
  \<open>MNL_SOCKET_BUFFER_SIZE\<close> is libmnl's macro: the page size of the host, at most 8192.
\<close>

definition MNL_SOCKET_BUFFER_SIZE :: "nat \<Rightarrow> nat" where
  "MNL_SOCKET_BUFFER_SIZE pagesize = (if pagesize < 8192 then pagesize else 8192)"

section \<open>Netlink attributes and messages\<close>

text \<open>
  An attribute as the walk of \<open>mnl_attr_for_each\<close> meets it: its \<open>nla_type\<close> and its
  payload (\<open>nla_len\<close> is the payload's length plus the 4-byte header).
\<close>

record nlattr =
  nla_type :: "16 word"
  nla_payload :: "byte list"

text \<open>
  A message of the family: the command of its \<open>genlmsghdr\<close> and the attributes behind
  it.  Netlink's own control messages are the other constructors of \<open>nlmsg\<close>;
  \<open>NlError e\<close> carries the \<open>error\<close> field of its \<open>nlmsgerr\<close>.
\<close>

record genlmsg =
  genl_cmd :: byte
  genl_attrs :: "nlattr list"

datatype nlmsg = NlData genlmsg | NlNoop | NlDone | NlError int

text \<open>
  A datagram on a socket: its bytes, and the messages \<open>mnl_cb_run\<close> finds in them.
  The model does not parse the bytes; a function reads one view or the other.
\<close>

record datagram =
  raw :: "byte list"
  msgs :: "nlmsg list"

text \<open>What the kernel does at the next receive call: a datagram, or a failure code.\<close>

datatype recv_event = Rx datagram | RxFail int

subsection \<open>The attribute functions of libmnl\<close>

text \<open>
  These follow libmnl's documented behaviour.  \<open>mnl_attr_validate\<close> accepts a
  \<open>MNL_TYPE_U16\<close> or \<open>MNL_TYPE_U32\<close> attribute when its payload has exactly 2 or 4
  bytes; \<open>mnl_attr_type_valid\<close> refuses an id above the bound.  Both return a negative
  value on refusal and set \<open>errno\<close> (to \<open>ERANGE\<close> and \<open>EOPNOTSUPP\<close>).
\<close>

datatype mnl_attr_data_type = MNL_TYPE_U16 | MNL_TYPE_U32

definition mnl_attr_get_type :: "nlattr \<Rightarrow> nat" where
  "mnl_attr_get_type attr = unat (nla_type attr AND NLA_TYPE_MASK)"

definition mnl_attr_get_payload_len :: "nlattr \<Rightarrow> nat" where
  "mnl_attr_get_payload_len attr = length (nla_payload attr)"

definition mnl_attr_type_valid :: "nlattr \<Rightarrow> nat \<Rightarrow> int" where
  "mnl_attr_type_valid attr max_id = (if max_id < mnl_attr_get_type attr then - 1 else 1)"

definition mnl_attr_data_type_len :: "mnl_attr_data_type \<Rightarrow> nat" where
  "mnl_attr_data_type_len t = (case t of MNL_TYPE_U16 \<Rightarrow> 2 | MNL_TYPE_U32 \<Rightarrow> 4)"

definition mnl_attr_validate :: "nlattr \<Rightarrow> mnl_attr_data_type \<Rightarrow> int" where
  "mnl_attr_validate attr t =
     (if mnl_attr_get_payload_len attr < mnl_attr_data_type_len t then - 1
      else if mnl_attr_data_type_len t < mnl_attr_get_payload_len attr then - 1
      else 0)"

text \<open>\<open>mnl_attr_get_u32\<close> loads the first four payload bytes in host order.\<close>

definition mnl_attr_get_u32 :: "bool \<Rightarrow> nlattr \<Rightarrow> u32" where
  "mnl_attr_get_u32 le attr = of_host_bytes le (take 4 (nla_payload attr))"

text \<open>
  \<open>mnl_attr_parse\<close> calls \<open>cb\<close> on each attribute in order and returns at the first
  result that is \<open>MNL_CB_STOP\<close> or below; otherwise it returns the last result
  (\<open>MNL_CB_OK\<close> when there is no attribute).
\<close>

fun mnl_attr_parse_from :: "int \<Rightarrow> nlattr list \<Rightarrow> (nlattr \<Rightarrow> 's \<Rightarrow> int \<times> 's) \<Rightarrow> 's \<Rightarrow> int \<times> 's" where
  "mnl_attr_parse_from ret [] cb s = (ret, s)"
| "mnl_attr_parse_from ret (a # as) cb s =
     (case cb a s of
        (r, s') \<Rightarrow> if r \<le> MNL_CB_STOP then (r, s') else mnl_attr_parse_from r as cb s')"

definition mnl_attr_parse :: "nlattr list \<Rightarrow> (nlattr \<Rightarrow> 's \<Rightarrow> int \<times> 's) \<Rightarrow> 's \<Rightarrow> int \<times> 's" where
  "mnl_attr_parse attrs cb s = mnl_attr_parse_from MNL_CB_OK attrs cb s"

section \<open>The attribute table\<close>

text \<open>
  \<open>struct nlattr *tb[PSAMPLE_ATTR_MAX + 1]\<close>: a list of that length, \<open>None\<close> for a null
  entry.  \<open>attr_cb\<close> works on the table and on \<open>errno\<close>, which the libmnl checks set
  when they refuse.
\<close>

type_synonym attr_table = "nlattr option list"

definition empty_tb :: attr_table where
  "empty_tb = replicate (PSAMPLE_ATTR_MAX + 1) None"

definition attr_cb :: "nlattr \<Rightarrow> attr_table \<times> int \<Rightarrow> int \<times> attr_table \<times> int" where
  "attr_cb attr s =
     (case s of (tb, eno) \<Rightarrow>
        (let type = mnl_attr_get_type attr in
         if mnl_attr_type_valid attr PSAMPLE_ATTR_MAX < 0 then (MNL_CB_ERROR, tb, EOPNOTSUPP)
         else if type = PSAMPLE_ATTR_IIFINDEX \<and> mnl_attr_validate attr MNL_TYPE_U16 < 0
           then (MNL_CB_ERROR, tb, ERANGE)
         else if type = PSAMPLE_ATTR_OIFINDEX \<and> mnl_attr_validate attr MNL_TYPE_U16 < 0
           then (MNL_CB_ERROR, tb, ERANGE)
         else if type = PSAMPLE_ATTR_SAMPLE_RATE \<and> mnl_attr_validate attr MNL_TYPE_U32 < 0
           then (MNL_CB_ERROR, tb, ERANGE)
         else if type = PSAMPLE_ATTR_ORIGSIZE \<and> mnl_attr_validate attr MNL_TYPE_U32 < 0
           then (MNL_CB_ERROR, tb, ERANGE)
         else if type = PSAMPLE_ATTR_SAMPLE_GROUP \<and> mnl_attr_validate attr MNL_TYPE_U32 < 0
           then (MNL_CB_ERROR, tb, ERANGE)
         else if type = PSAMPLE_ATTR_GROUP_SEQ \<and> mnl_attr_validate attr MNL_TYPE_U32 < 0
           then (MNL_CB_ERROR, tb, ERANGE)
         else if type = PSAMPLE_ATTR_GROUP_REFCOUNT \<and> mnl_attr_validate attr MNL_TYPE_U32 < 0
           then (MNL_CB_ERROR, tb, ERANGE)
         else (MNL_CB_OK, tb[type := Some attr], eno)))"

section \<open>State\<close>

text \<open>
  A kernel filter instruction, \<open>struct sock_filter\<close>, and the macros that build one.
\<close>

record sock_filter =
  bpf_code :: "16 word"
  bpf_jt :: byte
  bpf_jf :: byte
  bpf_k :: u32

definition BPF_STMT :: "16 word \<Rightarrow> u32 \<Rightarrow> sock_filter" where
  "BPF_STMT c kk = \<lparr>bpf_code = c, bpf_jt = 0, bpf_jf = 0, bpf_k = kk\<rparr>"

definition BPF_JUMP :: "16 word \<Rightarrow> u32 \<Rightarrow> byte \<Rightarrow> byte \<Rightarrow> sock_filter" where
  "BPF_JUMP c kk t f = \<lparr>bpf_code = c, bpf_jt = t, bpf_jf = f, bpf_k = kk\<rparr>"

definition BPF_LD :: "16 word" where "BPF_LD = 0x00"
definition BPF_LDX :: "16 word" where "BPF_LDX = 0x01"
definition BPF_JMP :: "16 word" where "BPF_JMP = 0x05"
definition BPF_RET :: "16 word" where "BPF_RET = 0x06"
definition BPF_MISC :: "16 word" where "BPF_MISC = 0x07"
definition BPF_W :: "16 word" where "BPF_W = 0x00"
definition BPF_IMM :: "16 word" where "BPF_IMM = 0x00"
definition BPF_ABS :: "16 word" where "BPF_ABS = 0x20"
definition BPF_IND :: "16 word" where "BPF_IND = 0x40"
definition BPF_JEQ :: "16 word" where "BPF_JEQ = 0x10"
definition BPF_K :: "16 word" where "BPF_K = 0x00"
definition BPF_TAX :: "16 word" where "BPF_TAX = 0x00"
definition SKF_AD_OFF :: u32 where "SKF_AD_OFF = - 0x1000"
definition SKF_AD_NLATTR :: u32 where "SKF_AD_NLATTR = 12"
definition sizeof_nlmsghdr :: u32 where "sizeof_nlmsghdr = 16"
definition sizeof_genlmsghdr :: u32 where "sizeof_genlmsghdr = 4"

text \<open>
  \<open>struct sock_fprog\<close>: the instruction count and the address of the buffer
  (0 is the null pointer).
\<close>

record sock_fprog =
  fprog_len :: "16 word"
  fprog_filter :: nat

text \<open>
  \<open>struct mnlg_socket\<close> together with the kernel socket behind its descriptor: the
  content of the receive buffer \<open>buf\<close>, the \<open>O_NONBLOCK\<close> flag of the descriptor, and
  the filter program the kernel holds for the socket (it keeps its own copy).
\<close>

record mnlg_socket =
  nl_buf :: "byte list"
  nonblock :: bool
  sk_filter :: "sock_filter list option"

record psample_handle =
  sample_nlh :: mnlg_socket
  control_nlh :: mnlg_socket
  sample_filter_fprog :: sock_fprog
  pcap :: psample_pcap

text \<open>
  The views handed to the callbacks, and the group descriptor.
\<close>

record psample_msg =
  msg_tb :: attr_table

record psample_config =
  config_cmd :: byte
  config_tb :: attr_table

record psample_group =
  group_num :: u32
  group_refcount :: u32
  group_seq :: u32

text \<open>
  One callback invocation: the view, the context pointer passed, and the value the
  callback returned.  The list of invocations is kept in the state for the proofs only.
\<close>

datatype callback_call =
    MsgCall psample_msg nat int
  | ConfigCall psample_config nat int
  | GroupCall psample_group nat int

fun call_ret :: "callback_call \<Rightarrow> int" where
  "call_ret (MsgCall _ _ r) = r"
| "call_ret (ConfigCall _ _ r) = r"
| "call_ret (GroupCall _ _ r) = r"

fun call_ctx :: "callback_call \<Rightarrow> nat" where
  "call_ctx (MsgCall _ c _) = c"
| "call_ctx (ConfigCall _ c _) = c"
| "call_ctx (GroupCall _ c _) = c"

text \<open>
  What the library shares with the rest of the process: \<open>errno\<close>, the filter buffers
  alive on the C heap (by address), and the caller's own state \<open>user\<close>, which only the
  callbacks read and change.

  Before most of its error returns the library reports the failure with \<open>LOG_ERR\<close>,
  that is, through \<open>psample_log\<close> to the function \<open>psample_logfunc\<close>, which the caller
  can replace (\<open>psample_set_log_func\<close>) and which writes to the standard error stream
  by default.  What is written is not modelled; what the call does to \<open>errno\<close> is,
  since several error paths read \<open>errno\<close> again after it: \<open>log_errno e\<close> is the value
  of \<open>errno\<close> after a log call made when it was \<open>e\<close>.  It is the identity when the
  message is below the log level or the log function leaves \<open>errno\<close> alone.
\<close>

record 'u world =
  errno :: int
  heap :: "nat \<Rightarrow> sock_filter list option"
  user :: 'u
  calls :: "callback_call list"

text \<open>
  A callback takes its view and its context pointer, works on the caller's state and
  returns an \<open>int\<close>.
\<close>

type_synonym 'u psample_msg_cb = "psample_msg \<Rightarrow> nat \<Rightarrow> 'u \<Rightarrow> int \<times> 'u"
type_synonym 'u psample_config_cb = "psample_config \<Rightarrow> nat \<Rightarrow> 'u \<Rightarrow> int \<times> 'u"
type_synonym 'u psample_group_cb = "psample_group \<Rightarrow> nat \<Rightarrow> 'u \<Rightarrow> int \<times> 'u"

section \<open>Receiving\<close>

text \<open>
  \<open>mnl_socket_recvfrom\<close> of libmnl on the socket, given the events \<open>q\<close> the kernel
  has in store for it.  With nothing to deliver, a non-blocking socket fails with
  \<open>EWOULDBLOCK\<close> and a blocking one waits.  A datagram longer than the buffer is cut
  and refused with \<open>ENOSPC\<close>; otherwise its bytes overwrite the front of the buffer and
  their number is returned.  The second component is the messages now in the buffer.
\<close>

definition mnl_socket_recvfrom ::
  "mnlg_socket \<Rightarrow> recv_event list \<Rightarrow> nat \<Rightarrow> 'u world
     \<Rightarrow> int outcome \<times> nlmsg list \<times> mnlg_socket \<times> recv_event list \<times> 'u world" where
  "mnl_socket_recvfrom nlg q bufsiz w =
     (case q of
        [] \<Rightarrow> if nonblock nlg then (Returns (- 1), [], nlg, [], w\<lparr>errno := EWOULDBLOCK\<rparr>)
              else (Blocks, [], nlg, [], w)
      | RxFail e # q' \<Rightarrow> (Returns (- 1), [], nlg, q', w\<lparr>errno := e\<rparr>)
      | Rx dg # q' \<Rightarrow>
          if bufsiz < length (raw dg)
          then (Returns (- 1), [], nlg\<lparr>nl_buf := take bufsiz (raw dg)\<rparr>, q', w\<lparr>errno := ENOSPC\<rparr>)
          else (Returns (int (length (raw dg))), msgs dg,
                nlg\<lparr>nl_buf := raw dg @ drop (length (raw dg)) (nl_buf nlg)\<rparr>, q', w))"

text \<open>
  \<open>mnl_cb_run\<close> of libmnl over the messages of one buffer: a data message goes to
  \<open>data_cb\<close>, \<open>NLMSG_NOOP\<close> is skipped, \<open>NLMSG_DONE\<close> and an acknowledgement stop
  the run, an error message fails it with \<open>errno\<close> set.  The run ends at the first
  result that is \<open>MNL_CB_STOP\<close> or below.  The messages are taken to be well framed
  and to pass the checks of sequence number and port id.
\<close>

fun mnl_cb_run_from ::
  "int \<Rightarrow> nlmsg list \<Rightarrow> (genlmsg \<Rightarrow> 'd \<Rightarrow> 'u world \<Rightarrow> int \<times> 'd \<times> 'u world) \<Rightarrow> 'd \<Rightarrow> 'u world
     \<Rightarrow> int \<times> 'd \<times> 'u world" where
  "mnl_cb_run_from ret [] data_cb d w = (ret, d, w)"
| "mnl_cb_run_from ret (m # ms) data_cb d w =
     (case (case m of
              NlData g \<Rightarrow> data_cb g d w
            | NlNoop \<Rightarrow> (MNL_CB_OK, d, w)
            | NlDone \<Rightarrow> (MNL_CB_STOP, d, w)
            | NlError e \<Rightarrow> (if e = 0 then MNL_CB_STOP else MNL_CB_ERROR, d, w\<lparr>errno := \<bar>e\<bar>\<rparr>)) of
        (r, d', w') \<Rightarrow>
          if r \<le> MNL_CB_STOP then (r, d', w') else mnl_cb_run_from r ms data_cb d' w')"

definition mnl_cb_run ::
  "nlmsg list \<Rightarrow> (genlmsg \<Rightarrow> 'd \<Rightarrow> 'u world \<Rightarrow> int \<times> 'd \<times> 'u world) \<Rightarrow> 'd \<Rightarrow> 'u world
     \<Rightarrow> int \<times> 'd \<times> 'u world" where
  "mnl_cb_run ms data_cb d w = mnl_cb_run_from MNL_CB_OK ms data_cb d w"

lemma mnl_socket_recvfrom_shorter:
  "(Returns err, ms, nlg', q', w') = mnl_socket_recvfrom nlg q bufsiz w \<Longrightarrow> \<not> err \<le> 0
     \<Longrightarrow> length q' < length q"
  by (auto simp: mnl_socket_recvfrom_def split: list.splits recv_event.splits if_splits)

text \<open>
  Modelled from the spec: \<open>mnlg_socket_recv_run\<close> of \<open>mnlg.c\<close>, which is not among the
  sources.  The spec calls it the transport's receive-and-run-callback and has it make
  one receive-and-process pass that a callback can stop; the loop is the one the source
  itself writes in \<open>psample_socket_recv_write\<close>, with \<open>mnl_cb_run\<close> in the place of the
  frame writer: receive, leave on a result of zero or below, run the callback over the
  buffer, and go on while the result is positive.
\<close>

function mnlg_socket_recv_run ::
  "mnlg_socket \<Rightarrow> recv_event list \<Rightarrow> nat
     \<Rightarrow> (genlmsg \<Rightarrow> 'd \<Rightarrow> 'u world \<Rightarrow> int \<times> 'd \<times> 'u world) \<Rightarrow> 'd \<Rightarrow> 'u world
     \<Rightarrow> int outcome \<times> mnlg_socket \<times> recv_event list \<times> 'd \<times> 'u world" where
  "mnlg_socket_recv_run nlg q bufsiz data_cb d w =
     (case mnl_socket_recvfrom nlg q bufsiz w of
        (Returns err, ms, nlg', q', w') \<Rightarrow>
          if err \<le> 0 then (Returns err, nlg', q', d, w')
          else (case mnl_cb_run ms data_cb d w' of
                  (err2, d', w'') \<Rightarrow>
                    if 0 < err2 then mnlg_socket_recv_run nlg' q' bufsiz data_cb d' w''
                    else (Returns err2, nlg', q', d', w''))
      | (Blocks, ms, nlg', q', w') \<Rightarrow> (Blocks, nlg', q', d, w')
      | (Faults f, ms, nlg', q', w') \<Rightarrow> (Faults f, nlg', q', d, w'))"
  by pat_completeness auto
termination
  by (relation "measure (\<lambda>(nlg, q, bufsiz, data_cb, d, w). length q)")
     (auto dest: mnl_socket_recvfrom_shorter)

declare mnlg_socket_recv_run.simps [simp del]

text \<open>
  \<open>psample_socket_recv_write(nlg, data_write)\<close>: the same loop, writing a frame per
  receive.  It passes \<open>MNL_SOCKET_BUFFER_SIZE\<close> as the length, so \<open>psample_pcap_write\<close>
  reads the receive buffer and the 16 bytes \<open>beyond\<close> it.
\<close>

function psample_socket_recv_write ::
  "nat \<Rightarrow> byte list \<Rightarrow> mnlg_socket \<Rightarrow> recv_event list \<Rightarrow> psample_pcap \<Rightarrow> 'u world
     \<Rightarrow> int outcome \<times> mnlg_socket \<times> recv_event list \<times> psample_pcap \<times> 'u world" where
  "psample_socket_recv_write pagesize beyond nlg q p w =
     (case mnl_socket_recvfrom nlg q (MNL_SOCKET_BUFFER_SIZE pagesize) w of
        (Returns err, ms, nlg', q', w') \<Rightarrow>
          if err \<le> 0 then (Returns err, nlg', q', p, w')
          else (case psample_pcap_write p (nl_buf nlg' @ beyond)
                       (int (MNL_SOCKET_BUFFER_SIZE pagesize)) of
                  Inl f \<Rightarrow> (Faults f, nlg', q', p, w')
                | Inr p' \<Rightarrow> psample_socket_recv_write pagesize beyond nlg' q' p' w')
      | (Blocks, ms, nlg', q', w') \<Rightarrow> (Blocks, nlg', q', p, w')
      | (Faults f, ms, nlg', q', w') \<Rightarrow> (Faults f, nlg', q', p, w'))"
  by pat_completeness auto
termination
  by (relation "measure (\<lambda>(pagesize, beyond, nlg, q, p, w). length q)")
     (auto dest: mnl_socket_recvfrom_shorter)

declare psample_socket_recv_write.simps [simp del]

section \<open>The session handle's operations\<close>

text \<open>
  \<open>psample_set_blocking\<close>: \<open>fcntl_err\<close> is the code with which \<open>fcntl(F_SETFL)\<close>
  fails, if it does; the failure is logged.
\<close>

definition psample_set_blocking ::
  "(int \<Rightarrow> int) \<Rightarrow> int option \<Rightarrow> psample_handle \<Rightarrow> bool \<Rightarrow> 'u world
     \<Rightarrow> int \<times> psample_handle \<times> 'u world" where
  "psample_set_blocking log_errno fcntl_err handle block w =
     (case fcntl_err of
        Some e \<Rightarrow> (- 1, handle, w\<lparr>errno := log_errno e\<rparr>)
      | None \<Rightarrow> (0, handle\<lparr>sample_nlh := (sample_nlh handle)\<lparr>nonblock := \<not> block\<rparr>\<rparr>, w))"

subsection \<open>The dispatch engine\<close>

record 'u psample_event_handler_data =
  msg_cb :: "'u psample_msg_cb option"
  config_cb :: "'u psample_config_cb option"
  config_cb_data :: nat
  msg_cb_data :: nat
  cb_retval :: int

text \<open>
  \<open>psample_event_handler\<close>.  The result of \<open>mnl_attr_parse\<close> is dropped, as in the
  source; the table and \<open>errno\<close> are what the walk left.  A null callback is \<open>None\<close>.
\<close>

definition psample_event_handler ::
  "genlmsg \<Rightarrow> 'u psample_event_handler_data \<Rightarrow> 'u world
     \<Rightarrow> int \<times> 'u psample_event_handler_data \<times> 'u world" where
  "psample_event_handler nlhdr d w =
     (case mnl_attr_parse (genl_attrs nlhdr) attr_cb (empty_tb, errno w) of
        (parsed, tb, eno) \<Rightarrow>
          (let w1 = w\<lparr>errno := eno\<rparr> in
           case (if genl_cmd nlhdr = PSAMPLE_CMD_SAMPLE then msg_cb d else None) of
             Some cb \<Rightarrow>
               (let msg = \<lparr>msg_tb = tb\<rparr> in
                case cb msg (msg_cb_data d) (user w1) of
                  (ret, u') \<Rightarrow>
                    (if ret \<noteq> 0 then MNL_CB_STOP else MNL_CB_OK,
                     d\<lparr>cb_retval := ret\<rparr>,
                     w1\<lparr>user := u', calls := calls w1 @ [MsgCall msg (msg_cb_data d) ret]\<rparr>))
           | None \<Rightarrow>
               (case config_cb d of
                  Some cb \<Rightarrow>
                    (let config = \<lparr>config_cmd = genl_cmd nlhdr, config_tb = tb\<rparr> in
                     case cb config (config_cb_data d) (user w1) of
                       (ret, u') \<Rightarrow>
                         (if ret \<noteq> 0 then MNL_CB_STOP else MNL_CB_OK,
                          d\<lparr>cb_retval := ret\<rparr>,
                          w1\<lparr>user := u',
                             calls := calls w1 @ [ConfigCall config (config_cb_data d) ret]\<rparr>))
                | None \<Rightarrow> (MNL_CB_OK, d, w1))))"

text \<open>
  \<open>psample_dispatch\<close>.  \<open>handle\<close> is \<open>None\<close> for a null pointer.  The local
  \<open>event_handler_data\<close> is declared without an initialiser and \<open>cb_retval\<close> is not
  among the fields assigned, so it starts with whatever the stack holds: \<open>junk\<close>.  The
  result of \<open>psample_set_blocking\<close> is dropped.  \<open>q\<close> are the receive events of the
  sample socket; the remaining ones are returned.
\<close>

definition psample_dispatch ::
  "(int \<Rightarrow> int) \<Rightarrow> nat \<Rightarrow> int option \<Rightarrow> int \<Rightarrow> psample_handle option \<Rightarrow> recv_event list
     \<Rightarrow> 'u psample_msg_cb option \<Rightarrow> nat \<Rightarrow> 'u psample_config_cb option \<Rightarrow> nat \<Rightarrow> bool \<Rightarrow> 'u world
     \<Rightarrow> int outcome \<times> psample_handle option \<times> recv_event list \<times> 'u world" where
  "psample_dispatch log_errno pagesize fcntl_err junk handle q msg_cb' msg_data config_cb' config_data
       block w =
     (case handle of
        None \<Rightarrow> (Returns (- ENOMEM), None, q, w\<lparr>errno := log_errno (errno w)\<rparr>)
      | Some h \<Rightarrow>
          (let event_handler_data =
                 \<lparr>msg_cb = msg_cb', config_cb = config_cb', config_cb_data = config_data,
                  msg_cb_data = msg_data, cb_retval = junk\<rparr>
           in case psample_set_blocking log_errno fcntl_err h block w of
                (rc, h1, w1) \<Rightarrow>
                  (case mnlg_socket_recv_run (sample_nlh h1) q (MNL_SOCKET_BUFFER_SIZE pagesize)
                          psample_event_handler event_handler_data w1 of
                     (Returns err, nlg, q', d', w2) \<Rightarrow>
                       (let h2 = h1\<lparr>sample_nlh := nlg\<rparr> in
                        if err < 0 then
                          (if errno w2 \<noteq> EWOULDBLOCK \<or> block
                           then (Returns (- log_errno (errno w2)), Some h2, q',
                                 w2\<lparr>errno := log_errno (errno w2)\<rparr>)
                           else (Returns (cb_retval d'), Some h2, q', w2))
                        else (Returns (cb_retval d'), Some h2, q', w2))
                   | (Blocks, nlg, q', d', w2) \<Rightarrow> (Blocks, Some (h1\<lparr>sample_nlh := nlg\<rparr>), q', w2)
                   | (Faults f, nlg, q', d', w2) \<Rightarrow>
                       (Faults f, Some (h1\<lparr>sample_nlh := nlg\<rparr>), q', w2))))"

text \<open>
  \<open>psample_write_pcap_dispatch\<close>, over the receive events of the sample socket.
\<close>

definition psample_write_pcap_dispatch ::
  "(int \<Rightarrow> int) \<Rightarrow> nat \<Rightarrow> byte list \<Rightarrow> int option \<Rightarrow> psample_handle option \<Rightarrow> recv_event list \<Rightarrow> 'u world
     \<Rightarrow> int outcome \<times> psample_handle option \<times> recv_event list \<times> 'u world" where
  "psample_write_pcap_dispatch log_errno pagesize beyond fcntl_err handle q w =
     (case handle of
        None \<Rightarrow> (Returns (- ENOMEM), None, q, w\<lparr>errno := log_errno (errno w)\<rparr>)
      | Some h \<Rightarrow>
          (case psample_set_blocking log_errno fcntl_err h True w of
             (rc, h1, w1) \<Rightarrow>
               (case psample_socket_recv_write pagesize beyond (sample_nlh h1) q (pcap h1) w1 of
                  (Returns err, nlg, q', p', w2) \<Rightarrow>
                    (let h2 = h1\<lparr>sample_nlh := nlg, pcap := p'\<rparr> in
                     if err < 0
                     then (Returns (- log_errno (errno w2)), Some h2, q',
                           w2\<lparr>errno := log_errno (errno w2)\<rparr>)
                     else (Returns 0, Some h2, q', w2))
                | (Blocks, nlg, q', p', w2) \<Rightarrow>
                    (Blocks, Some (h1\<lparr>sample_nlh := nlg, pcap := p'\<rparr>), q', w2)
                | (Faults f, nlg, q', p', w2) \<Rightarrow>
                    (Faults f, Some (h1\<lparr>sample_nlh := nlg, pcap := p'\<rparr>), q', w2))))"

subsection \<open>Group enumeration\<close>

record 'u psample_group_handler_data =
  group_cb :: "'u psample_group_cb"
  group_cb_data :: nat
  group_cb_retval :: int

text \<open>
  On an LP64 host the field \<open>cb_data\<close> of \<open>struct psample_group_handler_data\<close> lies
  behind one function pointer.
\<close>

definition offsetof_cb_data :: nat where
  "offsetof_cb_data = 8"

text \<open>
  \<open>group_handle(nlhdr, data)\<close>.  \<open>data_ptr\<close> is the pointer \<open>data\<close>, \<open>d\<close> the structure
  it points to.  The callback is passed \<open>&group_handler_data->cb_data\<close>.  The callback
  pointer is called without a test, so the model takes a function.
\<close>

definition group_handle ::
  "bool \<Rightarrow> nat \<Rightarrow> genlmsg \<Rightarrow> 'u psample_group_handler_data \<Rightarrow> 'u world
     \<Rightarrow> int \<times> 'u psample_group_handler_data \<times> 'u world" where
  "group_handle le data_ptr nlhdr d w =
     (case mnl_attr_parse (genl_attrs nlhdr) attr_cb (empty_tb, errno w) of
        (parsed, tb, eno) \<Rightarrow>
          (let w1 = w\<lparr>errno := eno\<rparr> in
           case tb ! PSAMPLE_ATTR_SAMPLE_GROUP of
             None \<Rightarrow> (MNL_CB_ERROR, d, w1)
           | Some a_group \<Rightarrow>
               (case tb ! PSAMPLE_ATTR_GROUP_REFCOUNT of
                  None \<Rightarrow> (MNL_CB_ERROR, d, w1)
                | Some a_refcount \<Rightarrow>
                    (case tb ! PSAMPLE_ATTR_GROUP_SEQ of
                       None \<Rightarrow> (MNL_CB_ERROR, d, w1)
                     | Some a_seq \<Rightarrow>
                         (let grp = \<lparr>group_num = mnl_attr_get_u32 le a_group,
                                     group_refcount = mnl_attr_get_u32 le a_refcount,
                                     group_seq = mnl_attr_get_u32 le a_seq\<rparr>;
                              arg = data_ptr + offsetof_cb_data
                          in case group_cb d grp arg (user w1) of
                               (ret, u') \<Rightarrow>
                                 (if ret \<noteq> 0 then MNL_CB_STOP else MNL_CB_OK,
                                  d\<lparr>group_cb_retval := ret\<rparr>,
                                  w1\<lparr>user := u',
                                     calls := calls w1 @ [GroupCall grp arg ret]\<rparr>))))))"

text \<open>
  \<open>psample_group_foreach\<close>.  The handle is dereferenced at once, to prepare the dump
  request, so a null handle is a fault.  The request itself is not modelled: \<open>send_err\<close>
  is the code with which \<open>mnlg_socket_send\<close> fails, if it does;
  \<open>frame\<close> is the address of the local \<open>group_handler_data\<close>, whose \<open>cb_retval\<close>
  starts as \<open>junk\<close>; \<open>q\<close> are the receive events of the control socket.
\<close>

definition psample_group_foreach ::
  "(int \<Rightarrow> int) \<Rightarrow> bool \<Rightarrow> nat \<Rightarrow> int option \<Rightarrow> int \<Rightarrow> nat \<Rightarrow> psample_handle option \<Rightarrow> recv_event list
     \<Rightarrow> 'u psample_group_cb \<Rightarrow> nat \<Rightarrow> 'u world
     \<Rightarrow> int outcome \<times> psample_handle option \<times> recv_event list \<times> 'u world" where
  "psample_group_foreach log_errno le pagesize send_err junk frame handle q group_cb' data w =
     (case handle of
        None \<Rightarrow> (Faults NullDeref, None, q, w)
      | Some h \<Rightarrow>
          (case send_err of
             Some e \<Rightarrow> (Returns (- log_errno e), Some h, q, w\<lparr>errno := log_errno e\<rparr>)
           | None \<Rightarrow>
               (let group_handler_data =
                      \<lparr>group_cb = group_cb', group_cb_data = data, group_cb_retval = junk\<rparr>
                in case mnlg_socket_recv_run (control_nlh h) q (MNL_SOCKET_BUFFER_SIZE pagesize)
                          (group_handle le frame) group_handler_data w of
                     (Returns err, nlg, q', d', w2) \<Rightarrow>
                       (let h2 = h\<lparr>control_nlh := nlg\<rparr> in
                        if err < 0
                        then (Returns (- log_errno (errno w2)), Some h2, q',
                              w2\<lparr>errno := log_errno (errno w2)\<rparr>)
                        else (Returns (group_cb_retval d'), Some h2, q', w2))
                   | (Blocks, nlg, q', d', w2) \<Rightarrow> (Blocks, Some (h\<lparr>control_nlh := nlg\<rparr>), q', w2)
                   | (Faults f, nlg, q', d', w2) \<Rightarrow>
                       (Faults f, Some (h\<lparr>control_nlh := nlg\<rparr>), q', w2))))"

subsection \<open>The group filter\<close>

definition psample_group_filter :: "sock_filter list" where
  "psample_group_filter =
     [BPF_STMT (BPF_LD + BPF_IMM) (sizeof_nlmsghdr + sizeof_genlmsghdr),
      BPF_STMT (BPF_LDX + BPF_IMM) (of_nat PSAMPLE_ATTR_SAMPLE_GROUP),
      BPF_STMT (BPF_LD + BPF_ABS) (SKF_AD_OFF + SKF_AD_NLATTR),
      BPF_JUMP (BPF_JMP + BPF_JEQ + BPF_K) 0 4 0,
      BPF_STMT (BPF_MISC + BPF_TAX) 0,
      BPF_STMT (BPF_LD + BPF_W + BPF_IND) 4,
      BPF_JUMP (BPF_JMP + BPF_JEQ + BPF_K) 0x38000000 1 0,
      BPF_STMT (BPF_RET + BPF_K) 0,
      BPF_STMT (BPF_RET + BPF_K) (- 1)]"

definition FILTER_GROUP_COMMAND :: nat where
  "FILTER_GROUP_COMMAND = 6"

text \<open>
  The two socket options as the kernel serves them.  \<open>refused\<close> is the code with which
  the kernel turns the request down for a reason of its own, if it does.
  \<open>SO_DETACH_FILTER\<close> fails with \<open>ENOENT\<close> on a socket that has no filter;
  \<open>SO_ATTACH_FILTER\<close> puts its copy of the program in the place of any earlier one.
\<close>

definition so_detach_filter :: "int option \<Rightarrow> mnlg_socket \<Rightarrow> int + mnlg_socket" where
  "so_detach_filter refused nlg =
     (case refused of
        Some e \<Rightarrow> Inl e
      | None \<Rightarrow> (case sk_filter nlg of
                   None \<Rightarrow> Inl ENOENT
                 | Some prog \<Rightarrow> Inr (nlg\<lparr>sk_filter := None\<rparr>)))"

definition so_attach_filter :: "int option \<Rightarrow> sock_filter list \<Rightarrow> mnlg_socket \<Rightarrow> int + mnlg_socket" where
  "so_attach_filter refused prog nlg =
     (case refused of
        Some e \<Rightarrow> Inl e
      | None \<Rightarrow> Inr (nlg\<lparr>sk_filter := Some prog\<rparr>))"

text \<open>
  \<open>psample_bind_group\<close>.  \<open>malloc_ret\<close> is the address \<open>malloc\<close> returns, 0 when it
  fails.  The source stores the address in \<open>fprog->filter\<close> and copies the template to
  it without a test, which faults on address 0.  \<open>free\<close> takes the old block off the
  heap; the pointer in the handle is overwritten right after.  After a failing socket
  option the source logs the failure and then returns \<open>-errno\<close>, reading \<open>errno\<close>
  anew: the value returned is the one the log call left.
\<close>

definition psample_bind_group ::
  "(int \<Rightarrow> int) \<Rightarrow> bool \<Rightarrow> int option \<Rightarrow> nat \<Rightarrow> int option \<Rightarrow> psample_handle option \<Rightarrow> int \<Rightarrow> 'u world
     \<Rightarrow> int outcome \<times> psample_handle option \<times> 'u world" where
  "psample_bind_group log_errno le detach_refused malloc_ret attach_refused handle grp w =
     (case handle of
        None \<Rightarrow> (Returns (- EINVAL), None, w\<lparr>errno := log_errno (errno w)\<rparr>)
      | Some h \<Rightarrow>
          (case (if fprog_filter (sample_filter_fprog h) \<noteq> 0
                 then (case so_detach_filter detach_refused (sample_nlh h) of
                         Inl e \<Rightarrow> Inl e
                       | Inr nlg \<Rightarrow>
                           Inr (h\<lparr>sample_nlh := nlg\<rparr>,
                                w\<lparr>heap := (heap w)(fprog_filter (sample_filter_fprog h) := None)\<rparr>))
                 else Inr (h, w)) of
             Inl e \<Rightarrow> (Returns (- log_errno e), Some h, w\<lparr>errno := log_errno e\<rparr>)
           | Inr (h1, w1) \<Rightarrow>
               (let h2 = h1\<lparr>sample_filter_fprog :=
                             (sample_filter_fprog h1)\<lparr>fprog_filter := malloc_ret\<rparr>\<rparr>
                in if malloc_ret = 0 then (Faults NullDeref, Some h2, w1)
                   else
                     (let prog = psample_group_filter
                            [FILTER_GROUP_COMMAND :=
                               (psample_group_filter ! FILTER_GROUP_COMMAND)
                                 \<lparr>bpf_k := ntohl le (word_of_int grp)\<rparr>];
                          h3 = h2\<lparr>sample_filter_fprog :=
                                    (sample_filter_fprog h2)
                                      \<lparr>fprog_len := of_nat (length psample_group_filter)\<rparr>\<rparr>;
                          w2 = w1\<lparr>heap := (heap w1)(malloc_ret \<mapsto> prog)\<rparr>
                      in case so_attach_filter attach_refused prog (sample_nlh h3) of
                           Inl e \<Rightarrow> (Returns (- log_errno e), Some h3, w2\<lparr>errno := log_errno e\<rparr>)
                         | Inr nlg \<Rightarrow> (Returns 0, Some (h3\<lparr>sample_nlh := nlg\<rparr>), w2)))))"

text \<open>
  The filter the spec describes for a group: the template with the comparison immediate
  of instruction \<open>FILTER_GROUP_COMMAND\<close> set to the group number in network byte
  order.  \<open>psample_bind_group\<close> is compared with it below.
\<close>

definition group_filter_for :: "bool \<Rightarrow> int \<Rightarrow> sock_filter list" where
  "group_filter_for le g =
     psample_group_filter
       [FILTER_GROUP_COMMAND :=
          (psample_group_filter ! FILTER_GROUP_COMMAND)\<lparr>bpf_k := htonl le (word_of_int g)\<rparr>]"

subsection \<open>What the kernel does with a filter\<close>

text \<open>
  The kernel runs the attached program on every datagram queued for the socket.  The
  datagram is its bytes together with \<open>skb_nlattr a x\<close>, the answer of the kernel's
  attribute search (the \<open>SKF_AD_NLATTR\<close> extension): the offset of the first
  attribute of type \<open>x\<close> in the attribute stream that starts at offset \<open>a\<close>, or 0 when
  there is none.
\<close>

record skb =
  skb_data :: "byte list"
  skb_nlattr :: "u32 \<Rightarrow> u32 \<Rightarrow> u32"

text \<open>A word load reads four bytes in network order and fails outside the datagram.\<close>

definition load_word :: "byte list \<Rightarrow> u32 \<Rightarrow> u32 option" where
  "load_word bs off =
     (if unat off + 4 \<le> length bs then Some (of_be_bytes (take 4 (drop (unat off) bs)))
      else None)"

text \<open>
  The classic BPF machine on the instructions the template uses, with accumulator
  \<open>A\<close> and index register \<open>X\<close>, both 0 at the start.  The result is the number
  of bytes of the datagram to keep: 0 drops it, \<open>-1\<close> keeps all of it.  A failed
  load drops the datagram.  \<open>None\<close> stands for a program the kernel would not have
  accepted (another instruction, or running off the end).  Jumps only go forward.
\<close>

function bpf_run :: "sock_filter list \<Rightarrow> skb \<Rightarrow> nat \<Rightarrow> u32 \<Rightarrow> u32 \<Rightarrow> u32 option" where
  "bpf_run prog pkt pc A X =
     (if length prog \<le> pc then None
      else
        (let insn = prog ! pc; c = bpf_code insn; kk = bpf_k insn in
         if c = BPF_RET + BPF_K then Some kk
         else if c = BPF_LD + BPF_IMM then bpf_run prog pkt (pc + 1) kk X
         else if c = BPF_LDX + BPF_IMM then bpf_run prog pkt (pc + 1) A kk
         else if c = BPF_LD + BPF_ABS then
           (if kk = SKF_AD_OFF + SKF_AD_NLATTR
            then bpf_run prog pkt (pc + 1) (skb_nlattr pkt A X) X
            else None)
         else if c = BPF_JMP + BPF_JEQ + BPF_K then
           bpf_run prog pkt (pc + 1 + unat (if A = kk then bpf_jt insn else bpf_jf insn)) A X
         else if c = BPF_MISC + BPF_TAX then bpf_run prog pkt (pc + 1) A A
         else if c = BPF_LD + BPF_W + BPF_IND then
           (case load_word (skb_data pkt) (X + kk) of
              None \<Rightarrow> Some 0
            | Some v \<Rightarrow> bpf_run prog pkt (pc + 1) v X)
         else None))"
  by pat_completeness auto
termination
  by (relation "measure (\<lambda>(prog, pkt, pc, A, X). length prog - pc)") auto

declare bpf_run.simps [simp del]

section \<open>Notions used in the statements\<close>

text \<open>
  An attribute the decoder refuses, in the words of the spec: its id exceeds the bound,
  or its payload does not have the size of the type mandated for its id (16 bits for
  the interface indices; 32 bits for rate, original size, group, sequence and reference
  count).
\<close>

definition attr_invalid :: "nlattr \<Rightarrow> bool" where
  "attr_invalid a =
     (PSAMPLE_ATTR_MAX < mnl_attr_get_type a \<or>
      (mnl_attr_get_type a \<in> {PSAMPLE_ATTR_IIFINDEX, PSAMPLE_ATTR_OIFINDEX} \<and>
       length (nla_payload a) \<noteq> 2) \<or>
      (mnl_attr_get_type a \<in> {PSAMPLE_ATTR_SAMPLE_RATE, PSAMPLE_ATTR_ORIGSIZE,
          PSAMPLE_ATTR_SAMPLE_GROUP, PSAMPLE_ATTR_GROUP_SEQ, PSAMPLE_ATTR_GROUP_REFCOUNT} \<and>
       length (nla_payload a) \<noteq> 4))"

text \<open>
  A queue of plain traffic: every event is a datagram that is not empty, fits the
  receive buffer, and holds data messages only.
\<close>

fun is_data :: "nlmsg \<Rightarrow> bool" where
  "is_data (NlData g) = True"
| "is_data NlNoop = False"
| "is_data NlDone = False"
| "is_data (NlError e) = False"

fun plain_rx :: "nat \<Rightarrow> recv_event \<Rightarrow> bool" where
  "plain_rx bufsiz (Rx dg) =
     (raw dg \<noteq> [] \<and> length (raw dg) \<le> bufsiz \<and> list_all is_data (msgs dg))"
| "plain_rx bufsiz (RxFail e) = False"

text \<open>The callback invocations in a list all returned zero.\<close>

definition all_zero :: "callback_call list \<Rightarrow> bool" where
  "all_zero cs = list_all (\<lambda>c. call_ret c = 0) cs"

subsection \<open>The invocations the spec asks for\<close>




text \<open>
  The attribute table of a message: what the walk of \<open>attr_cb\<close> over its attributes
  leaves in the table, whatever the result of the walk (see C2).  It does not depend on
  \<open>errno\<close>.
\<close>

definition decoded_table :: "genlmsg \<Rightarrow> attr_table" where
  "decoded_table g = fst (snd (mnl_attr_parse (genl_attrs g) attr_cb (empty_tb, 0)))"




section \<open>Properties of the capture bridge\<close>

lemma to_size_t_id: "0 \<le> x \<Longrightarrow> x < 2 ^ 64 \<Longrightarrow> to_size_t x = x"
  by (simp add: to_size_t_def)

lemma to_c_int_id: "- (2 ^ 31) \<le> x \<Longrightarrow> x < 2 ^ 31 \<Longrightarrow> to_c_int x = x"
  by (simp add: to_c_int_def)

lemma to_u32_id: "0 \<le> x \<Longrightarrow> x < 2 ^ 32 \<Longrightarrow> to_u32 x = x"
  by (simp add: to_u32_def)

lemma length_linux_sll_bytes: "length linux_sll_bytes = 16"
  by (simp add: linux_sll_bytes_def)

text \<open>
  The capture state the examples below start from is the one \<open>psample_pcap_init\<close>
  sets up: a snapshot length of 65535 and a zeroed buffer with the header in front.
\<close>

lemma psample_pcap_buf_init_default:
  "psample_pcap_buf_init True \<lparr>snaplen = 0xffff, pcap_buf = [], pcap_dumper = []\<rparr> =
     Returns (0, \<lparr>snaplen = 0xffff, pcap_buf = linux_sll_bytes @ replicate 65519 0,
                  pcap_dumper = []\<rparr>)"
  by (simp add: psample_pcap_buf_init_def sizeof_linux_sll_def)

text \<open>
  A write that fits: \<open>len + 16\<close> bytes are copied behind the header (16 more than
  \<open>len\<close>, so the copy needs room for them on both sides), and the frame holds the
  header and the first \<open>len\<close> bytes of \<open>mem\<close>.
\<close>

lemma psample_pcap_write_fits:
  assumes "0 \<le> len" "len + 32 \<le> snaplen p" "snaplen p < 2 ^ 31"
    and "length (pcap_buf p) = nat (snaplen p)" "nat len + 16 \<le> length mem"
  shows "psample_pcap_write p mem len =
    Inr (p\<lparr>pcap_buf := take 16 (pcap_buf p) @ take (nat len + 16) mem @
                         drop (32 + nat len) (pcap_buf p),
          pcap_dumper := pcap_dumper p @
            [\<lparr>hdr_caplen = len + 16, hdr_len = len + 16,
              frame_bytes = take 16 (pcap_buf p) @ take (nat len) mem\<rparr>]\<rparr>)"
proof -
  have a: "to_size_t len = len" using assms by (simp add: to_size_t_id)
  have b: "to_size_t (len + 16) = len + 16" using assms by (simp add: to_size_t_id)
  have c: "to_size_t (snaplen p) = snaplen p" using assms by (simp add: to_size_t_id)
  have d: "to_c_int (len + 16) = len + 16" using assms by (simp add: to_c_int_id)
  have e: "to_u32 (len + 16) = len + 16" using assms by (simp add: to_u32_id)
  have f: "nat (len + 16) = nat len + 16" using assms by simp
  show ?thesis
    using assms
    by (simp add: psample_pcap_write_def sizeof_linux_sll_def a b c d e f Let_def nat_add_distrib)
qed



lemma MNL_SOCKET_BUFFER_SIZE_4096: "MNL_SOCKET_BUFFER_SIZE 4096 = 4096"
  by (simp add: MNL_SOCKET_BUFFER_SIZE_def)




lemma psample_socket_recv_write_Nil:
  "psample_socket_recv_write ps beyond nlg [] p w =
     (if nonblock nlg then (Returns (- 1), nlg, [], p, w\<lparr>errno := EWOULDBLOCK\<rparr>)
      else (Blocks, nlg, [], p, w))"
  by (subst psample_socket_recv_write.simps) (simp add: mnl_socket_recvfrom_def)

lemma psample_socket_recv_write_RxFail:
  "psample_socket_recv_write ps beyond nlg (RxFail e # q) p w =
     (Returns (- 1), nlg, q, p, w\<lparr>errno := e\<rparr>)"
  by (subst psample_socket_recv_write.simps) (simp add: mnl_socket_recvfrom_def)

lemma psample_socket_recv_write_Rx:
  assumes "0 < length (raw dg)" "length (raw dg) \<le> MNL_SOCKET_BUFFER_SIZE ps"
  shows "psample_socket_recv_write ps beyond nlg (Rx dg # q) p w =
     (case psample_pcap_write p ((raw dg @ drop (length (raw dg)) (nl_buf nlg)) @ beyond)
             (int (MNL_SOCKET_BUFFER_SIZE ps)) of
        Inl f \<Rightarrow> (Faults f, nlg\<lparr>nl_buf := raw dg @ drop (length (raw dg)) (nl_buf nlg)\<rparr>, q, p, w)
      | Inr p' \<Rightarrow> psample_socket_recv_write ps beyond
                   (nlg\<lparr>nl_buf := raw dg @ drop (length (raw dg)) (nl_buf nlg)\<rparr>) q p' w)"
  using assms
  by (subst psample_socket_recv_write.simps) (simp add: mnl_socket_recvfrom_def)

text \<open>
  C5.  The capture bridge passes \<open>MNL_SOCKET_BUFFER_SIZE\<close>, not the number of bytes
  received, as the length of every datagram.  For a datagram of \<open>L\<close> bytes that fits
  the receive buffer, the frame written is the cooked header followed by the whole
  receive buffer: the \<open>L\<close> bytes received and then what the buffer held before, so
  \<open>16 + MNL_SOCKET_BUFFER_SIZE\<close> bytes instead of the \<open>16 + L\<close> of the claim.  The
  loop then goes on with the rest of the queue.
\<close>

theorem psample_socket_recv_write_frame:
  assumes len: "0 < length (raw dg)" "length (raw dg) \<le> MNL_SOCKET_BUFFER_SIZE ps"
    and buf: "length (nl_buf nlg) = MNL_SOCKET_BUFFER_SIZE ps" "16 \<le> length beyond"
    and snap: "int (MNL_SOCKET_BUFFER_SIZE ps) + 32 \<le> snaplen p" "snaplen p < 2 ^ 31"
    and pbuf: "length (pcap_buf p) = nat (snaplen p)" "take 16 (pcap_buf p) = linux_sll_bytes"
  shows "psample_socket_recv_write ps beyond nlg (Rx dg # q) p w =
     psample_socket_recv_write ps beyond
       (nlg\<lparr>nl_buf := raw dg @ drop (length (raw dg)) (nl_buf nlg)\<rparr>) q
       (p\<lparr>pcap_buf := linux_sll_bytes @ raw dg @ drop (length (raw dg)) (nl_buf nlg) @
                        take 16 beyond @ drop (32 + MNL_SOCKET_BUFFER_SIZE ps) (pcap_buf p),
          pcap_dumper := pcap_dumper p @
            [\<lparr>hdr_caplen = int (MNL_SOCKET_BUFFER_SIZE ps) + 16,
              hdr_len = int (MNL_SOCKET_BUFFER_SIZE ps) + 16,
              frame_bytes = linux_sll_bytes @ raw dg @ drop (length (raw dg)) (nl_buf nlg)\<rparr>]\<rparr>) w"
proof -
  let ?B = "MNL_SOCKET_BUFFER_SIZE ps"
  let ?nb = "raw dg @ drop (length (raw dg)) (nl_buf nlg)"
  have lnb: "length ?nb = ?B" using len buf by simp
  have w: "psample_pcap_write p (?nb @ beyond) (int ?B) =
    Inr (p\<lparr>pcap_buf := take 16 (pcap_buf p) @ take (nat (int ?B) + 16) (?nb @ beyond) @
                 drop (32 + nat (int ?B)) (pcap_buf p),
          pcap_dumper := pcap_dumper p @
            [\<lparr>hdr_caplen = int ?B + 16, hdr_len = int ?B + 16,
              frame_bytes = take 16 (pcap_buf p) @ take (nat (int ?B)) (?nb @ beyond)\<rparr>]\<rparr>)"
    by (rule psample_pcap_write_fits) (use snap pbuf buf lnb in \<open>simp_all\<close>)
  have t1: "take (?B + 16) (?nb @ beyond) = ?nb @ take 16 beyond"
    using lnb by simp
  have t2: "take ?B (?nb @ beyond) = ?nb"
    using lnb by simp
  show ?thesis
    unfolding psample_socket_recv_write_Rx [OF len] w
    using t1 t2 pbuf by simp
qed

text \<open>
  With 4096-byte pages, a datagram of four bytes is written as a frame of 4112 bytes:
  the header, the four bytes, and 4092 bytes left in the receive buffer.
\<close>

theorem psample_socket_recv_write_frame_witness:
  "psample_socket_recv_write 4096 (replicate 16 0x55)
     \<lparr>nl_buf = replicate 4096 0xEE, nonblock = False, sk_filter = None\<rparr>
     [Rx \<lparr>raw = [1, 2, 3, 4], msgs = []\<rparr>, RxFail 4]
     \<lparr>snaplen = 0xffff, pcap_buf = linux_sll_bytes @ replicate 65519 0, pcap_dumper = []\<rparr>
     (\<lparr>errno = 0, heap = (\<lambda>a. None), user = (), calls = []\<rparr> :: unit world) =
   (Returns (- 1),
    \<lparr>nl_buf = [1, 2, 3, 4] @ replicate 4092 0xEE, nonblock = False, sk_filter = None\<rparr>,
    [],
    \<lparr>snaplen = 0xffff,
     pcap_buf = linux_sll_bytes @ [1, 2, 3, 4] @ replicate 4092 0xEE @ replicate 16 0x55 @
                replicate 61407 0,
     pcap_dumper = [\<lparr>hdr_caplen = 4112, hdr_len = 4112,
                     frame_bytes = linux_sll_bytes @ [1, 2, 3, 4] @ replicate 4092 0xEE\<rparr>]\<rparr>,
    \<lparr>errno = 4, heap = (\<lambda>a. None), user = (), calls = []\<rparr>)"
  using psample_socket_recv_write_frame [of "\<lparr>raw = [1, 2, 3, 4], msgs = []\<rparr>" 4096
     "\<lparr>nl_buf = replicate 4096 0xEE, nonblock = False, sk_filter = None\<rparr>"
     "replicate 16 0x55"
     "\<lparr>snaplen = 0xffff, pcap_buf = linux_sll_bytes @ replicate 65519 0, pcap_dumper = []\<rparr>"
     "[RxFail 4]" "\<lparr>errno = 0, heap = (\<lambda>a. None), user = (), calls = []\<rparr> :: unit world"]
  by (simp add: MNL_SOCKET_BUFFER_SIZE_4096 length_linux_sll_bytes psample_socket_recv_write_RxFail)

text \<open>
  The same datagram through \<open>psample_write_pcap_dispatch\<close>, which ends at the
  receive error that follows.
\<close>

lemma psample_write_pcap_dispatch_example:
  "(case psample_write_pcap_dispatch (\<lambda>e. e) 4096 (replicate 16 0x55) None
          (Some \<lparr>sample_nlh = \<lparr>nl_buf = replicate 4096 0xEE, nonblock = False, sk_filter = None\<rparr>,
                 control_nlh = \<lparr>nl_buf = replicate 4096 0, nonblock = False, sk_filter = None\<rparr>,
                 sample_filter_fprog = \<lparr>fprog_len = 0, fprog_filter = 0\<rparr>,
                 pcap = \<lparr>snaplen = 0xffff, pcap_buf = linux_sll_bytes @ replicate 65519 0,
                         pcap_dumper = []\<rparr>\<rparr>)
          [Rx \<lparr>raw = [1, 2, 3, 4], msgs = []\<rparr>, RxFail 4]
          (\<lparr>errno = 0, heap = (\<lambda>a. None), user = (), calls = []\<rparr> :: unit world) of
      (r, hnd', q', w') \<Rightarrow>
        r = Returns (- 4) \<and>
        map_option (map frame_bytes \<circ> pcap_dumper \<circ> pcap) hnd' =
          Some [linux_sll_bytes @ [1, 2, 3, 4] @ replicate 4092 0xEE])"
proof -
  let ?p = "\<lparr>snaplen = 0xffff, pcap_buf = linux_sll_bytes @ replicate 65519 0, pcap_dumper = []\<rparr>"
  let ?mem = "([1, 2, 3, 4] @ replicate 4092 0xEE) @ replicate 16 0x55 :: byte list"
  have w: "psample_pcap_write ?p ?mem 4096 =
    Inr (?p\<lparr>pcap_buf := take 16 (pcap_buf ?p) @ take (nat 4096 + 16) ?mem @
                  drop (32 + nat 4096) (pcap_buf ?p),
          pcap_dumper := pcap_dumper ?p @
            [\<lparr>hdr_caplen = 4096 + 16, hdr_len = 4096 + 16,
              frame_bytes = take 16 (pcap_buf ?p) @ take (nat 4096) ?mem\<rparr>]\<rparr>)"
    by (rule psample_pcap_write_fits) (simp_all add: length_linux_sll_bytes)
  show ?thesis
    using w
    by (simp add: psample_write_pcap_dispatch_def psample_set_blocking_def
        psample_socket_recv_write_Rx psample_socket_recv_write_RxFail
        MNL_SOCKET_BUFFER_SIZE_4096 length_linux_sll_bytes)
qed

section \<open>Properties of the group filter\<close>

subsection \<open>Byte order\<close>

lemma of_be_bytes_be_bytes: "of_be_bytes (be_bytes w) = w"
  unfolding of_be_bytes_def be_bytes_def
  apply simp
  apply (rule bit_word_eqI)
  apply (simp add: bit_simps)
  subgoal for n
    by (cases "n < 8"; cases "n < 16"; cases "n < 24"; auto)
  done

lemma be_bytes_of_be_bytes4: "be_bytes (of_be_bytes [a, b, c, d]) = [a, b, c, d]"
  unfolding of_be_bytes_def be_bytes_def
  apply simp
  apply (intro conjI; rule bit_word_eqI; simp add: bit_simps)
    apply (auto dest: bit_imp_le_length)
  done

lemma be_bytes_of_be_bytes_rev: "be_bytes (of_be_bytes (rev (be_bytes x))) = rev (be_bytes x)"
proof -
  obtain a b c d where e: "be_bytes x = [a, b, c, d]" by (simp add: be_bytes_def)
  show ?thesis by (simp add: e be_bytes_of_be_bytes4)
qed

text \<open>The host's memory image of \<open>ntohl x\<close> is \<open>x\<close> in network order.\<close>

lemma host_bytes_ntohl: "host_bytes le (ntohl le x) = be_bytes x"
  by (simp add: host_bytes_def ntohl_def of_be_bytes_be_bytes be_bytes_of_be_bytes_rev)

lemma ntohl_eq_htonl: "ntohl le x = htonl le x"
  by (simp add: ntohl_def htonl_def host_bytes_def of_host_bytes_def)

lemma be_bytes_inj: "be_bytes x = be_bytes y \<Longrightarrow> x = y"
  by (metis of_be_bytes_be_bytes)

lemma ntohl_inj: "ntohl le x = ntohl le y \<Longrightarrow> x = y"
  by (metis host_bytes_ntohl be_bytes_inj)

lemma htonl_le_2: "htonl True 2 = 0x02000000"
  by (simp add: htonl_def of_host_bytes_def be_bytes_def of_be_bytes_def)

subsection \<open>The installed program\<close>

lemma length_psample_group_filter: "length psample_group_filter = 9"
  by (simp add: psample_group_filter_def)

lemma psample_bind_group_Returns_0:
  assumes "psample_bind_group lg le dr m ar (Some h) g w = (Returns 0, hd', w')"
    and "dr \<noteq> Some 0" "ar \<noteq> Some 0" and "\<forall>e. e \<noteq> 0 \<longrightarrow> lg e \<noteq> 0"
  shows "\<exists>h1. hd' = Some h1 \<and>
     sk_filter (sample_nlh h1) = Some (psample_group_filter
        [FILTER_GROUP_COMMAND := (psample_group_filter ! FILTER_GROUP_COMMAND)
            \<lparr>bpf_k := ntohl le (word_of_int g)\<rparr>]) \<and>
     fprog_filter (sample_filter_fprog h1) = m \<and> m \<noteq> 0 \<and>
     fprog_len (sample_filter_fprog h1) = 9 \<and>
     heap w' m = Some (psample_group_filter
        [FILTER_GROUP_COMMAND := (psample_group_filter ! FILTER_GROUP_COMMAND)
            \<lparr>bpf_k := ntohl le (word_of_int g)\<rparr>])"
  using assms
  by (auto simp: psample_bind_group_def so_detach_filter_def so_attach_filter_def Let_def
       length_psample_group_filter ENOENT_def
      split: if_splits option.splits sum.splits)

text \<open>
  With nothing refused and an allocation that succeeds, the call returns 0, on a fresh
  handle as on one whose filter is installed.
\<close>

lemma psample_bind_group_succeeds:
  assumes "fprog_filter (sample_filter_fprog h) = 0 \<or> sk_filter (sample_nlh h) \<noteq> None"
    and "m \<noteq> 0"
  shows "fst (psample_bind_group lg le None m None (Some h) g w) = Returns 0"
  using assms
  by (auto simp: psample_bind_group_def so_detach_filter_def so_attach_filter_def Let_def
      split: option.splits sum.splits)

lemma group_filter_for_unfold: "group_filter_for le g =
     [BPF_STMT (BPF_LD + BPF_IMM) (sizeof_nlmsghdr + sizeof_genlmsghdr),
      BPF_STMT (BPF_LDX + BPF_IMM) (of_nat PSAMPLE_ATTR_SAMPLE_GROUP),
      BPF_STMT (BPF_LD + BPF_ABS) (SKF_AD_OFF + SKF_AD_NLATTR),
      BPF_JUMP (BPF_JMP + BPF_JEQ + BPF_K) 0 4 0,
      BPF_STMT (BPF_MISC + BPF_TAX) 0,
      BPF_STMT (BPF_LD + BPF_W + BPF_IND) 4,
      BPF_JUMP (BPF_JMP + BPF_JEQ + BPF_K) (htonl le (word_of_int g)) 1 0,
      BPF_STMT (BPF_RET + BPF_K) 0,
      BPF_STMT (BPF_RET + BPF_K) (- 1)]"
  by (simp add: group_filter_for_def psample_group_filter_def FILTER_GROUP_COMMAND_def BPF_JUMP_def)

lemma group_filter_for_neq:
  assumes "(word_of_int g1 :: u32) \<noteq> word_of_int g2"
  shows "group_filter_for le g1 \<noteq> group_filter_for le g2"
proof
  assume "group_filter_for le g1 = group_filter_for le g2"
  then have "ntohl le (word_of_int g1) = ntohl le (word_of_int g2)"
    by (simp add: group_filter_for_unfold ntohl_eq_htonl BPF_JUMP_def)
  with assms show False by (auto dest: ntohl_inj)
qed

subsection \<open>Running the program\<close>

lemmas bpf_consts = BPF_RET_def BPF_K_def BPF_LD_def BPF_IMM_def BPF_LDX_def BPF_ABS_def
  BPF_JMP_def BPF_JEQ_def BPF_MISC_def BPF_TAX_def BPF_W_def BPF_IND_def
  BPF_STMT_def BPF_JUMP_def

text \<open>
  The program passes a datagram without a group attribute, drops one whose attribute
  cannot be loaded, and otherwise compares the word behind the attribute header with
  the immediate.
\<close>

lemma bpf_run_group_filter:
  "bpf_run (group_filter_for le g) pkt 0 0 0 =
     (let off = skb_nlattr pkt (sizeof_nlmsghdr + sizeof_genlmsghdr)
                  (of_nat PSAMPLE_ATTR_SAMPLE_GROUP)
      in if off = 0 then Some (- 1)
         else (case load_word (skb_data pkt) (off + 4) of
                 None \<Rightarrow> Some 0
               | Some v \<Rightarrow> if v = htonl le (word_of_int g) then Some (- 1) else Some 0))"
  unfolding group_filter_for_unfold
  apply (subst bpf_run.simps, simp add: bpf_consts)
  apply (subst bpf_run.simps, simp add: bpf_consts)
  apply (subst bpf_run.simps, simp add: bpf_consts)
  apply (subst bpf_run.simps, simp add: bpf_consts Let_def)
  apply (intro conjI impI)
   apply (subst bpf_run.simps, simp add: bpf_consts)
  apply (subst bpf_run.simps, simp add: bpf_consts)
  apply (subst bpf_run.simps, simp add: bpf_consts split: option.splits)
  apply (intro allI impI conjI)
   apply (subst bpf_run.simps, simp add: bpf_consts)
   apply (subst bpf_run.simps, simp add: bpf_consts)
  apply (subst bpf_run.simps, simp add: bpf_consts)
  apply (subst bpf_run.simps, simp add: bpf_consts)
  done

lemma load_word_host_bytes:
  "unat off + 4 \<le> length bs \<Longrightarrow> take 4 (drop (unat off) bs) = host_bytes le v
     \<Longrightarrow> load_word bs off = Some (ntohl le v)"
  by (simp add: load_word_def ntohl_def)

lemma bpf_run_group_filter_value:
  assumes "skb_nlattr pkt (sizeof_nlmsghdr + sizeof_genlmsghdr)
             (of_nat PSAMPLE_ATTR_SAMPLE_GROUP) = off"
    and "off \<noteq> 0" "unat (off + 4) + 4 \<le> length (skb_data pkt)"
    and "take 4 (drop (unat (off + 4)) (skb_data pkt)) = host_bytes le v"
  shows "bpf_run (group_filter_for le g) pkt 0 0 0 = Some (if v = word_of_int g then - 1 else 0)"
  using assms load_word_host_bytes [OF assms(3,4)] ntohl_inj [of le v "word_of_int g"]
  by (auto simp: bpf_run_group_filter Let_def ntohl_eq_htonl)

text \<open>
  C3.  Two successful calls of \<open>psample_bind_group\<close>, for groups \<open>g1\<close> and then
  \<open>g2\<close>, on any handle.  After each, the filter the kernel holds for the sample socket
  is the template with the immediate of instruction \<open>FILTER_GROUP_COMMAND\<close>, and
  nothing else, replaced, and that immediate lies in memory as the group number in
  network byte order.  After the second call the socket holds the one program for
  \<open>g2\<close>, which is not the program for \<open>g1\<close> when the two numbers differ as 32-bit
  values, the handle's buffer holds the same program and the first buffer is freed.
  Run by the kernel on a datagram whose group attribute holds \<open>v\<close>, the program keeps
  the datagram when \<open>v\<close> is \<open>g2\<close> and drops it otherwise, so a datagram of group
  \<open>g1\<close> is dropped.  A failing socket option is taken to report a code other than 0,
  and the log call that follows it to leave \<open>errno\<close> other than 0.
\<close>

theorem psample_bind_group_twice:
  assumes first: "psample_bind_group lg le dr1 m1 ar1 (Some h) g1 w = (Returns 0, hd1, w1)"
    and second: "psample_bind_group lg le dr2 m2 ar2 hd1 g2 w1 = (Returns 0, hd2, w2)"
    and codes: "dr1 \<noteq> Some 0" "ar1 \<noteq> Some 0" "dr2 \<noteq> Some 0" "ar2 \<noteq> Some 0"
    and logs: "\<forall>e. e \<noteq> 0 \<longrightarrow> lg e \<noteq> 0"
  shows "map_option (sk_filter \<circ> sample_nlh) hd1 = Some (Some (group_filter_for le g1)) \<and>
         map_option (sk_filter \<circ> sample_nlh) hd2 = Some (Some (group_filter_for le g2)) \<and>
         map_option (fprog_filter \<circ> sample_filter_fprog) hd2 = Some m2 \<and>
         heap w2 m2 = Some (group_filter_for le g2) \<and>
         (m1 \<noteq> m2 \<longrightarrow> heap w2 m1 = None) \<and>
         length (group_filter_for le g2) = length psample_group_filter \<and>
         (\<forall>i < length psample_group_filter. i \<noteq> FILTER_GROUP_COMMAND \<longrightarrow>
            group_filter_for le g2 ! i = psample_group_filter ! i) \<and>
         group_filter_for le g2 ! FILTER_GROUP_COMMAND =
           (psample_group_filter ! FILTER_GROUP_COMMAND)
             \<lparr>bpf_k := bpf_k (group_filter_for le g2 ! FILTER_GROUP_COMMAND)\<rparr> \<and>
         host_bytes le (bpf_k (group_filter_for le g2 ! FILTER_GROUP_COMMAND)) =
           be_bytes (word_of_int g2) \<and>
         ((word_of_int g1 :: u32) \<noteq> word_of_int g2 \<longrightarrow>
            map_option (sk_filter \<circ> sample_nlh) hd2 \<noteq> Some (Some (group_filter_for le g1))) \<and>
         (\<forall>pkt v.
            skb_nlattr pkt (sizeof_nlmsghdr + sizeof_genlmsghdr)
              (of_nat PSAMPLE_ATTR_SAMPLE_GROUP) \<noteq> 0 \<and>
            unat (skb_nlattr pkt (sizeof_nlmsghdr + sizeof_genlmsghdr)
                    (of_nat PSAMPLE_ATTR_SAMPLE_GROUP) + 4) + 4 \<le> length (skb_data pkt) \<and>
            take 4 (drop (unat (skb_nlattr pkt (sizeof_nlmsghdr + sizeof_genlmsghdr)
                                  (of_nat PSAMPLE_ATTR_SAMPLE_GROUP) + 4)) (skb_data pkt)) =
              host_bytes le v \<longrightarrow>
            bpf_run (group_filter_for le g2) pkt 0 0 0 =
              Some (if v = word_of_int g2 then - 1 else 0))"
proof -
  from psample_bind_group_Returns_0 [OF first codes(1,2) logs]
  obtain h1 where h1: "hd1 = Some h1"
    "sk_filter (sample_nlh h1) = Some (group_filter_for le g1)"
    "fprog_filter (sample_filter_fprog h1) = m1" "m1 \<noteq> 0"
    by (auto simp: group_filter_for_def ntohl_eq_htonl)
  from psample_bind_group_Returns_0 [OF second [unfolded h1(1)] codes(3,4) logs]
  obtain h2 where h2: "hd2 = Some h2"
    "sk_filter (sample_nlh h2) = Some (group_filter_for le g2)"
    "fprog_filter (sample_filter_fprog h2) = m2"
    "heap w2 m2 = Some (group_filter_for le g2)"
    by (auto simp: group_filter_for_def ntohl_eq_htonl)
  have freed: "m1 \<noteq> m2 \<Longrightarrow> heap w2 m1 = None"
    using second h1 codes(3,4) logs
    by (auto simp: psample_bind_group_def so_detach_filter_def so_attach_filter_def Let_def
        split: if_splits option.splits sum.splits)
  have k: "bpf_k (group_filter_for le g2 ! FILTER_GROUP_COMMAND) = ntohl le (word_of_int g2)"
    by (simp add: group_filter_for_def FILTER_GROUP_COMMAND_def psample_group_filter_def
        ntohl_eq_htonl)
  have c1: "map_option (sk_filter \<circ> sample_nlh) hd1 = Some (Some (group_filter_for le g1))"
    using h1 by simp
  have c2: "map_option (sk_filter \<circ> sample_nlh) hd2 = Some (Some (group_filter_for le g2))"
    using h2 by simp
  have c3: "map_option (fprog_filter \<circ> sample_filter_fprog) hd2 = Some m2"
    using h2 by simp
  have c5: "m1 \<noteq> m2 \<longrightarrow> heap w2 m1 = None"
    using freed by simp
  have c6: "length (group_filter_for le g2) = length psample_group_filter"
    by (simp add: group_filter_for_def)
  have c7: "\<forall>i < length psample_group_filter. i \<noteq> FILTER_GROUP_COMMAND \<longrightarrow>
            group_filter_for le g2 ! i = psample_group_filter ! i"
    by (simp add: group_filter_for_def)
  have c8: "group_filter_for le g2 ! FILTER_GROUP_COMMAND =
           (psample_group_filter ! FILTER_GROUP_COMMAND)
             \<lparr>bpf_k := bpf_k (group_filter_for le g2 ! FILTER_GROUP_COMMAND)\<rparr>"
    by (simp add: group_filter_for_def FILTER_GROUP_COMMAND_def psample_group_filter_def)
  have c9: "host_bytes le (bpf_k (group_filter_for le g2 ! FILTER_GROUP_COMMAND)) =
           be_bytes (word_of_int g2)"
    by (simp add: k host_bytes_ntohl)
  have c10: "(word_of_int g1 :: u32) \<noteq> word_of_int g2 \<longrightarrow>
            map_option (sk_filter \<circ> sample_nlh) hd2 \<noteq> Some (Some (group_filter_for le g1))"
    using c2 group_filter_for_neq [of g1 g2 le] by auto
  have c11: "\<forall>pkt v.
            skb_nlattr pkt (sizeof_nlmsghdr + sizeof_genlmsghdr)
              (of_nat PSAMPLE_ATTR_SAMPLE_GROUP) \<noteq> 0 \<and>
            unat (skb_nlattr pkt (sizeof_nlmsghdr + sizeof_genlmsghdr)
                    (of_nat PSAMPLE_ATTR_SAMPLE_GROUP) + 4) + 4 \<le> length (skb_data pkt) \<and>
            take 4 (drop (unat (skb_nlattr pkt (sizeof_nlmsghdr + sizeof_genlmsghdr)
                                  (of_nat PSAMPLE_ATTR_SAMPLE_GROUP) + 4)) (skb_data pkt)) =
              host_bytes le v \<longrightarrow>
            bpf_run (group_filter_for le g2) pkt 0 0 0 =
              Some (if v = word_of_int g2 then - 1 else 0)"
    using bpf_run_group_filter_value [OF refl] by blast
  from c1 c2 c3 h2(4) c5 c6 c7 c8 c9 c10 c11 show ?thesis by blast
qed

lemma host_bytes_le_1: "host_bytes True 1 = [1, 0, 0, 0]"
  by (simp add: host_bytes_def be_bytes_def)

lemma host_bytes_le_2: "host_bytes True 2 = [2, 0, 0, 0]"
  by (simp add: host_bytes_def be_bytes_def)

text \<open>
  On a little-endian host: a fresh handle bound to group 1 and then to group 2.  The
  immediate is \<open>0x02000000\<close>; the program drops a datagram of group 1 and keeps one
  of group 2.
\<close>

theorem psample_bind_group_twice_witness:
  "case psample_bind_group (\<lambda>e. e) True None 4096 None
          (Some \<lparr>sample_nlh = \<lparr>nl_buf = [], nonblock = False, sk_filter = None\<rparr>,
                 control_nlh = \<lparr>nl_buf = [], nonblock = False, sk_filter = None\<rparr>,
                 sample_filter_fprog = \<lparr>fprog_len = 0, fprog_filter = 0\<rparr>,
                 pcap = \<lparr>snaplen = 0, pcap_buf = [], pcap_dumper = []\<rparr>\<rparr>)
          1 (\<lparr>errno = 0, heap = (\<lambda>a. None), user = (), calls = []\<rparr> :: unit world) of
     (r1, hd1, w1) \<Rightarrow>
       (case psample_bind_group (\<lambda>e. e) True None 8192 None hd1 2 w1 of
          (r2, hd2, w2) \<Rightarrow>
            r1 = Returns 0 \<and> r2 = Returns 0 \<and>
            map_option (sk_filter \<circ> sample_nlh) hd2 = Some (Some (group_filter_for True 2)) \<and>
            map_option (sk_filter \<circ> sample_nlh) hd2 \<noteq> Some (Some (group_filter_for True 1)) \<and>
            heap w2 4096 = None \<and> heap w2 8192 = Some (group_filter_for True 2) \<and>
            bpf_k (group_filter_for True 2 ! FILTER_GROUP_COMMAND) = 0x02000000 \<and>
            bpf_run (group_filter_for True 2)
              \<lparr>skb_data = replicate 24 0 @ [1, 0, 0, 0], skb_nlattr = (\<lambda>a x. 20)\<rparr> 0 0 0 = Some 0 \<and>
            bpf_run (group_filter_for True 2)
              \<lparr>skb_data = replicate 24 0 @ [2, 0, 0, 0], skb_nlattr = (\<lambda>a x. 20)\<rparr> 0 0 0 =
              Some (- 1))"
proof -
  let ?h0 = "\<lparr>sample_nlh = \<lparr>nl_buf = [], nonblock = False, sk_filter = None\<rparr>,
                 control_nlh = \<lparr>nl_buf = [], nonblock = False, sk_filter = None\<rparr>,
                 sample_filter_fprog = \<lparr>fprog_len = 0, fprog_filter = 0\<rparr>,
                 pcap = \<lparr>snaplen = 0, pcap_buf = [], pcap_dumper = []\<rparr>\<rparr>"
  let ?w0 = "\<lparr>errno = 0, heap = (\<lambda>a. None), user = (), calls = []\<rparr> :: unit world"
  let ?p1 = "\<lparr>skb_data = replicate 24 0 @ [1, 0, 0, 0], skb_nlattr = (\<lambda>a x. 20)\<rparr>"
  let ?p2 = "\<lparr>skb_data = replicate 24 0 @ [2, 0, 0, 0], skb_nlattr = (\<lambda>a x. 20)\<rparr>"
  have "fst (psample_bind_group (\<lambda>e. e) True None 4096 None (Some ?h0) 1 ?w0) = Returns 0"
    by (rule psample_bind_group_succeeds) simp_all
  then obtain hd1 w1 where
    e1: "psample_bind_group (\<lambda>e. e) True None 4096 None (Some ?h0) 1 ?w0 = (Returns 0, hd1, w1)"
    by (cases "psample_bind_group (\<lambda>e. e) True None 4096 None (Some ?h0) 1 ?w0") auto
  from psample_bind_group_Returns_0 [OF e1] obtain h1 where
    h1: "hd1 = Some h1" "sk_filter (sample_nlh h1) \<noteq> None"
    by auto
  have "fst (psample_bind_group (\<lambda>e. e) True None 8192 None (Some h1) 2 w1) = Returns 0"
    by (rule psample_bind_group_succeeds) (use h1 in simp_all)
  then obtain hd2 w2 where
    e2: "psample_bind_group (\<lambda>e. e) True None 8192 None hd1 2 w1 = (Returns 0, hd2, w2)"
    unfolding h1(1)
    by (cases "psample_bind_group (\<lambda>e. e) True None 8192 None (Some h1) 2 w1") auto
  note T = psample_bind_group_twice [OF e1 e2]
  have ne: "(word_of_int 1 :: u32) \<noteq> word_of_int 2" by simp
  from T ne
  have a: "map_option (sk_filter \<circ> sample_nlh) hd2 = Some (Some (group_filter_for True 2))"
    "map_option (sk_filter \<circ> sample_nlh) hd2 \<noteq> Some (Some (group_filter_for True 1))"
    "heap w2 4096 = None" "heap w2 8192 = Some (group_filter_for True 2)"
    by simp_all
  from T have sem: "\<And>pkt v.
            skb_nlattr pkt (sizeof_nlmsghdr + sizeof_genlmsghdr)
              (of_nat PSAMPLE_ATTR_SAMPLE_GROUP) \<noteq> 0 \<Longrightarrow>
            unat (skb_nlattr pkt (sizeof_nlmsghdr + sizeof_genlmsghdr)
                    (of_nat PSAMPLE_ATTR_SAMPLE_GROUP) + 4) + 4 \<le> length (skb_data pkt) \<Longrightarrow>
            take 4 (drop (unat (skb_nlattr pkt (sizeof_nlmsghdr + sizeof_genlmsghdr)
                                  (of_nat PSAMPLE_ATTR_SAMPLE_GROUP) + 4)) (skb_data pkt)) =
              host_bytes True v \<Longrightarrow>
            bpf_run (group_filter_for True 2) pkt 0 0 0 =
              Some (if v = word_of_int 2 then - 1 else 0)"
    by simp
  have b1: "bpf_run (group_filter_for True 2) ?p1 0 0 0 = Some 0"
    using sem [of ?p1 1] by (simp add: host_bytes_le_1)
  have b2: "bpf_run (group_filter_for True 2) ?p2 0 0 0 = Some (- 1)"
    using sem [of ?p2 2] by (simp add: host_bytes_le_2)
  have k: "bpf_k (group_filter_for True 2 ! FILTER_GROUP_COMMAND) = 0x02000000"
    by (simp add: group_filter_for_unfold FILTER_GROUP_COMMAND_def BPF_JUMP_def htonl_le_2)
  from a b1 b2 k show ?thesis
    by (simp add: e1 e2)
qed

text \<open>
  After a failing socket option \<open>psample_bind_group\<close> returns \<open>errno\<close> negated as the
  log call left it.  When the detach option fails nothing else is changed.  When the
  detach succeeds and the attach option fails, the old program is by then off the
  socket and its buffer is freed.
\<close>

lemma psample_bind_group_sockopt_fails_logged:
  assumes prev: "fprog_filter (sample_filter_fprog h) \<noteq> 0"
  shows "(so_detach_filter dr (sample_nlh h) = Inl e \<longrightarrow>
            psample_bind_group lg le dr m ar (Some h) g w =
              (Returns (- lg e), Some h, w\<lparr>errno := lg e\<rparr>)) \<and>
         (so_detach_filter dr (sample_nlh h) = Inr nlg \<and> m \<noteq> 0 \<and> ar = Some e \<longrightarrow>
            (case psample_bind_group lg le dr m ar (Some h) g w of
               (r, hd', w') \<Rightarrow>
                 r = Returns (- lg e) \<and> errno w' = lg e \<and>
                 map_option (sk_filter \<circ> sample_nlh) hd' = Some None \<and>
                 (m \<noteq> fprog_filter (sample_filter_fprog h) \<longrightarrow>
                    heap w' (fprog_filter (sample_filter_fprog h)) = None)))"
  using prev
  by (auto simp: psample_bind_group_def so_detach_filter_def so_attach_filter_def Let_def
      group_filter_for_def ntohl_eq_htonl
      split: option.splits sum.splits)

text \<open>
  The claim of C8 as stated fails, on a handle bound to group 1 and rebound to group 2.
  With an attach that fails with \<open>ENOMEM\<close>, the old buffer at 4096 is freed although
  no new filter is installed, the socket is left without a filter while the handle holds
  a buffer, and the next call, with nothing refused, fails at the detach with
  \<open>ENOENT\<close>.  With a detach that fails with \<open>EPERM\<close> and a log function that leaves
  \<open>errno\<close> at \<open>EBADF\<close> (its stream is closed), the call returns \<open>-EBADF\<close>, not the code
  of the socket option.
\<close>

theorem psample_bind_group_frees_before_attach:
  "(case psample_bind_group (\<lambda>e. e) True None 8192 (Some 12)
     (Some \<lparr>sample_nlh = \<lparr>nl_buf = [], nonblock = False, sk_filter = Some (group_filter_for True 1)\<rparr>,
            control_nlh = \<lparr>nl_buf = [], nonblock = False, sk_filter = None\<rparr>,
            sample_filter_fprog = \<lparr>fprog_len = 9, fprog_filter = 4096\<rparr>,
            pcap = \<lparr>snaplen = 0, pcap_buf = [], pcap_dumper = []\<rparr>\<rparr>)
     2 (\<lparr>errno = 0, heap = (\<lambda>a. None)(4096 \<mapsto> group_filter_for True 1), user = (),
         calls = []\<rparr> :: unit world) of
      (r, hd', w') \<Rightarrow>
        r = Returns (- 12) \<and> heap w' 4096 = None \<and>
        map_option (sk_filter \<circ> sample_nlh) hd' = Some None \<and>
        map_option (fprog_filter \<circ> sample_filter_fprog) hd' = Some 8192 \<and>
        fst (psample_bind_group (\<lambda>e. e) True None 12288 None hd' 3 w') = Returns (- 2)) \<and>
   fst (psample_bind_group (\<lambda>e. 9) True (Some 1) 8192 None
     (Some \<lparr>sample_nlh = \<lparr>nl_buf = [], nonblock = False, sk_filter = Some (group_filter_for True 1)\<rparr>,
            control_nlh = \<lparr>nl_buf = [], nonblock = False, sk_filter = None\<rparr>,
            sample_filter_fprog = \<lparr>fprog_len = 9, fprog_filter = 4096\<rparr>,
            pcap = \<lparr>snaplen = 0, pcap_buf = [], pcap_dumper = []\<rparr>\<rparr>)
     2 (\<lparr>errno = 0, heap = (\<lambda>a. None)(4096 \<mapsto> group_filter_for True 1), user = (),
         calls = []\<rparr> :: unit world)) = Returns (- 9)"
  by (simp add: psample_bind_group_def so_detach_filter_def so_attach_filter_def Let_def
      ENOENT_def)

text \<open>
  C8.  A handle whose filter buffer is set, and a log function that leaves \<open>errno\<close> as
  the failing socket option set it.  When the detach option fails, the call returns the
  negated error code and changes nothing but \<open>errno\<close>.  When the detach succeeds and
  the attach option fails, the call returns the negated error code of the attach; by
  then the old program is off the socket and its buffer is freed.
\<close>

theorem psample_bind_group_sockopt_fails:
  assumes prev: "fprog_filter (sample_filter_fprog h) \<noteq> 0" and kept: "lg e = e"
  shows "(so_detach_filter dr (sample_nlh h) = Inl e \<longrightarrow>
            psample_bind_group lg le dr m ar (Some h) g w = (Returns (- e), Some h, w\<lparr>errno := e\<rparr>)) \<and>
         (so_detach_filter dr (sample_nlh h) = Inr nlg \<and> m \<noteq> 0 \<and> ar = Some e \<longrightarrow>
            (case psample_bind_group lg le dr m ar (Some h) g w of
               (r, hd', w') \<Rightarrow>
                 r = Returns (- e) \<and> errno w' = e \<and>
                 map_option (sk_filter \<circ> sample_nlh) hd' = Some None \<and>
                 (m \<noteq> fprog_filter (sample_filter_fprog h) \<longrightarrow>
                    heap w' (fprog_filter (sample_filter_fprog h)) = None)))"
  using psample_bind_group_sockopt_fails_logged [OF prev, where lg = lg and e = e and dr = dr
      and le = le and m = m and ar = ar and g = g and w = w and nlg = nlg] kept
  by simp

text \<open>
  Both cases on a handle bound to group 1, with a log function that leaves \<open>errno\<close>
  alone: a detach refused with code 1, and an attach refused with code 12.
\<close>

theorem psample_bind_group_sockopt_fails_witness:
  "psample_bind_group (\<lambda>e. e) True (Some 1) 8192 None
     (Some \<lparr>sample_nlh = \<lparr>nl_buf = [], nonblock = False, sk_filter = Some (group_filter_for True 1)\<rparr>,
            control_nlh = \<lparr>nl_buf = [], nonblock = False, sk_filter = None\<rparr>,
            sample_filter_fprog = \<lparr>fprog_len = 9, fprog_filter = 4096\<rparr>,
            pcap = \<lparr>snaplen = 0, pcap_buf = [], pcap_dumper = []\<rparr>\<rparr>)
     2 (\<lparr>errno = 0, heap = (\<lambda>a. None)(4096 \<mapsto> group_filter_for True 1), user = (),
         calls = []\<rparr> :: unit world) =
   (Returns (- 1),
    Some \<lparr>sample_nlh = \<lparr>nl_buf = [], nonblock = False, sk_filter = Some (group_filter_for True 1)\<rparr>,
          control_nlh = \<lparr>nl_buf = [], nonblock = False, sk_filter = None\<rparr>,
          sample_filter_fprog = \<lparr>fprog_len = 9, fprog_filter = 4096\<rparr>,
          pcap = \<lparr>snaplen = 0, pcap_buf = [], pcap_dumper = []\<rparr>\<rparr>,
    \<lparr>errno = 1, heap = (\<lambda>a. None)(4096 \<mapsto> group_filter_for True 1), user = (), calls = []\<rparr>) \<and>
   (case psample_bind_group (\<lambda>e. e) True None 8192 (Some 12)
     (Some \<lparr>sample_nlh = \<lparr>nl_buf = [], nonblock = False, sk_filter = Some (group_filter_for True 1)\<rparr>,
            control_nlh = \<lparr>nl_buf = [], nonblock = False, sk_filter = None\<rparr>,
            sample_filter_fprog = \<lparr>fprog_len = 9, fprog_filter = 4096\<rparr>,
            pcap = \<lparr>snaplen = 0, pcap_buf = [], pcap_dumper = []\<rparr>\<rparr>)
     2 (\<lparr>errno = 0, heap = (\<lambda>a. None)(4096 \<mapsto> group_filter_for True 1), user = (),
         calls = []\<rparr> :: unit world) of
      (r, hd', w') \<Rightarrow>
        r = Returns (- 12) \<and> errno w' = 12 \<and>
        map_option (sk_filter \<circ> sample_nlh) hd' = Some None \<and> heap w' 4096 = None)"
proof -
  let ?h = "\<lparr>sample_nlh = \<lparr>nl_buf = [], nonblock = False, sk_filter = Some (group_filter_for True 1)\<rparr>,
            control_nlh = \<lparr>nl_buf = [], nonblock = False, sk_filter = None\<rparr>,
            sample_filter_fprog = \<lparr>fprog_len = 9, fprog_filter = 4096\<rparr>,
            pcap = \<lparr>snaplen = 0, pcap_buf = [], pcap_dumper = []\<rparr>\<rparr>"
  let ?w = "\<lparr>errno = 0, heap = (\<lambda>a. None)(4096 \<mapsto> group_filter_for True 1), user = (),
         calls = []\<rparr> :: unit world"
  have p: "fprog_filter (sample_filter_fprog ?h) \<noteq> 0" by simp
  have d1: "so_detach_filter (Some 1) (sample_nlh ?h) = Inl 1"
    by (simp add: so_detach_filter_def)
  have d2: "so_detach_filter None (sample_nlh ?h) =
      Inr \<lparr>nl_buf = [], nonblock = False, sk_filter = None\<rparr>"
    by (simp add: so_detach_filter_def)
  from psample_bind_group_sockopt_fails [where lg = "\<lambda>e. e" and e = 1 and h = ?h
      and dr = "Some 1" and le = True and m = 8192 and ar = None and g = 2 and w = ?w,
      OF p refl] d1
  have a: "psample_bind_group (\<lambda>e. e) True (Some 1) 8192 None (Some ?h) 2 ?w =
      (Returns (- 1), Some ?h, ?w\<lparr>errno := 1\<rparr>)"
    by blast
  from psample_bind_group_sockopt_fails [where lg = "\<lambda>e. e" and e = 12 and h = ?h
      and dr = None and le = True
      and nlg = "\<lparr>nl_buf = [], nonblock = False, sk_filter = None\<rparr>"
      and m = 8192 and ar = "Some 12" and g = 2 and w = ?w, OF p refl] d2
  have b: "case psample_bind_group (\<lambda>e. e) True None 8192 (Some 12) (Some ?h) 2 ?w of
      (r, hd', w') \<Rightarrow>
        r = Returns (- 12) \<and> errno w' = 12 \<and>
        map_option (sk_filter \<circ> sample_nlh) hd' = Some None \<and> heap w' 4096 = None"
    by (simp split: prod.splits)
  from a b show ?thesis by simp
qed

text \<open>
  C9.  When \<open>malloc\<close> returns the null pointer, \<open>psample_bind_group\<close> does not fail
  with a code: it stores the null pointer in the handle and copies the template to it,
  which is a fault.  This happens on a handle without a filter and, once the detach has
  succeeded, on a handle with one; in that case the old program is already off the
  socket and its buffer freed.
\<close>

theorem psample_bind_group_malloc_fails:
  "(fprog_filter (sample_filter_fprog h) = 0 \<longrightarrow>
      fst (psample_bind_group lg le dr 0 ar (Some h) g w) = Faults NullDeref) \<and>
   (fprog_filter (sample_filter_fprog h) \<noteq> 0 \<and>
    so_detach_filter dr (sample_nlh h) = Inr nlg \<longrightarrow>
      (case psample_bind_group lg le dr 0 ar (Some h) g w of
         (r, hd', w') \<Rightarrow>
           r = Faults NullDeref \<and>
           map_option (sk_filter \<circ> sample_nlh) hd' = Some None \<and>
           map_option (fprog_filter \<circ> sample_filter_fprog) hd' = Some 0 \<and>
           heap w' (fprog_filter (sample_filter_fprog h)) = None))"
  by (auto simp: psample_bind_group_def so_detach_filter_def Let_def
      split: sum.splits option.splits)

text \<open>A fresh handle, and a handle bound to group 1, each with a failing allocation.\<close>

theorem psample_bind_group_malloc_fails_witness:
  "fst (psample_bind_group (\<lambda>e. e) True None 0 None
          (Some \<lparr>sample_nlh = \<lparr>nl_buf = [], nonblock = False, sk_filter = None\<rparr>,
                 control_nlh = \<lparr>nl_buf = [], nonblock = False, sk_filter = None\<rparr>,
                 sample_filter_fprog = \<lparr>fprog_len = 0, fprog_filter = 0\<rparr>,
                 pcap = \<lparr>snaplen = 0, pcap_buf = [], pcap_dumper = []\<rparr>\<rparr>)
          7 (\<lparr>errno = 0, heap = (\<lambda>a. None), user = (), calls = []\<rparr> :: unit world)) =
   Faults NullDeref \<and>
   (case psample_bind_group (\<lambda>e. e) True None 0 None
     (Some \<lparr>sample_nlh = \<lparr>nl_buf = [], nonblock = False, sk_filter = Some (group_filter_for True 1)\<rparr>,
            control_nlh = \<lparr>nl_buf = [], nonblock = False, sk_filter = None\<rparr>,
            sample_filter_fprog = \<lparr>fprog_len = 9, fprog_filter = 4096\<rparr>,
            pcap = \<lparr>snaplen = 0, pcap_buf = [], pcap_dumper = []\<rparr>\<rparr>)
     7 (\<lparr>errno = 0, heap = (\<lambda>a. None)(4096 \<mapsto> group_filter_for True 1), user = (),
         calls = []\<rparr> :: unit world) of
      (r, hd', w') \<Rightarrow>
        r = Faults NullDeref \<and>
        map_option (sk_filter \<circ> sample_nlh) hd' = Some None \<and>
        map_option (fprog_filter \<circ> sample_filter_fprog) hd' = Some 0 \<and>
        heap w' 4096 = None)"
proof -
  let ?fresh = "\<lparr>sample_nlh = \<lparr>nl_buf = [], nonblock = False, sk_filter = None\<rparr>,
                 control_nlh = \<lparr>nl_buf = [], nonblock = False, sk_filter = None\<rparr>,
                 sample_filter_fprog = \<lparr>fprog_len = 0, fprog_filter = 0\<rparr>,
                 pcap = \<lparr>snaplen = 0, pcap_buf = [], pcap_dumper = []\<rparr>\<rparr>"
  let ?h = "\<lparr>sample_nlh = \<lparr>nl_buf = [], nonblock = False, sk_filter = Some (group_filter_for True 1)\<rparr>,
            control_nlh = \<lparr>nl_buf = [], nonblock = False, sk_filter = None\<rparr>,
            sample_filter_fprog = \<lparr>fprog_len = 9, fprog_filter = 4096\<rparr>,
            pcap = \<lparr>snaplen = 0, pcap_buf = [], pcap_dumper = []\<rparr>\<rparr>"
  let ?wfresh = "\<lparr>errno = 0, heap = (\<lambda>a. None), user = (), calls = []\<rparr> :: unit world"
  let ?w = "\<lparr>errno = 0, heap = (\<lambda>a. None)(4096 \<mapsto> group_filter_for True 1), user = (),
         calls = []\<rparr> :: unit world"
  have d: "so_detach_filter None (sample_nlh ?h) =
      Inr \<lparr>nl_buf = [], nonblock = False, sk_filter = None\<rparr>"
    by (simp add: so_detach_filter_def)
  from psample_bind_group_malloc_fails [where h = ?fresh and le = True and dr = None
      and ar = None and g = 7 and w = ?wfresh]
  have a: "fst (psample_bind_group (\<lambda>e. e) True None 0 None (Some ?fresh) 7 ?wfresh) = Faults NullDeref"
    by simp
  from psample_bind_group_malloc_fails [where h = ?h and le = True and dr = None
      and ar = None and g = 7 and w = ?w
      and nlg = "\<lparr>nl_buf = [], nonblock = False, sk_filter = None\<rparr>"] d
  have b: "case psample_bind_group (\<lambda>e. e) True None 0 None (Some ?h) 7 ?w of
      (r, hd', w') \<Rightarrow>
        r = Faults NullDeref \<and>
        map_option (sk_filter \<circ> sample_nlh) hd' = Some None \<and>
        map_option (fprog_filter \<circ> sample_filter_fprog) hd' = Some 0 \<and>
        heap w' 4096 = None"
    by (simp split: prod.splits)
  show ?thesis by (rule conjI [OF a b])
qed

section \<open>Properties of the receive loop\<close>

lemma mnlg_socket_recv_run_Nil:
  "mnlg_socket_recv_run nlg [] B cb d w =
     (if nonblock nlg then (Returns (- 1), nlg, [], d, w\<lparr>errno := EWOULDBLOCK\<rparr>)
      else (Blocks, nlg, [], d, w))"
  by (subst mnlg_socket_recv_run.simps) (simp add: mnl_socket_recvfrom_def)

lemma mnlg_socket_recv_run_RxFail:
  "mnlg_socket_recv_run nlg (RxFail e # q) B cb d w = (Returns (- 1), nlg, q, d, w\<lparr>errno := e\<rparr>)"
  by (subst mnlg_socket_recv_run.simps) (simp add: mnl_socket_recvfrom_def)

lemma mnlg_socket_recv_run_Rx:
  "mnlg_socket_recv_run nlg (Rx dg # q) B cb d w =
     (if B < length (raw dg)
      then (Returns (- 1), nlg\<lparr>nl_buf := take B (raw dg)\<rparr>, q, d, w\<lparr>errno := ENOSPC\<rparr>)
      else if raw dg = []
      then (Returns 0, nlg\<lparr>nl_buf := raw dg @ drop (length (raw dg)) (nl_buf nlg)\<rparr>, q, d, w)
      else (case mnl_cb_run (msgs dg) cb d w of
              (err2, d', w'') \<Rightarrow>
                if 0 < err2
                then mnlg_socket_recv_run
                       (nlg\<lparr>nl_buf := raw dg @ drop (length (raw dg)) (nl_buf nlg)\<rparr>) q B cb d' w''
                else (Returns err2, nlg\<lparr>nl_buf := raw dg @ drop (length (raw dg)) (nl_buf nlg)\<rparr>,
                      q, d', w'')))"
  by (subst mnlg_socket_recv_run.simps) (simp add: mnl_socket_recvfrom_def)

lemma mnl_cb_run_from_invariant:
  assumes step: "\<And>g d w r d' w'. I d w \<Longrightarrow> cb g d w = (r, d', w') \<Longrightarrow> I d' w'"
    and eno: "\<And>d w e. I d w \<Longrightarrow> I d (w\<lparr>errno := e\<rparr>)"
  shows "I d w \<Longrightarrow> mnl_cb_run_from r0 ms cb d w = (r, d', w') \<Longrightarrow> I d' w'"
proof (induction ms arbitrary: r0 d w)
  case Nil
  then show ?case by simp
next
  case (Cons m ms)
  show ?case
  proof (cases m)
    case (NlData g)
    obtain r1 d1 w1 where h: "cb g d w = (r1, d1, w1)" by (cases "cb g d w") auto
    have i1: "I d1 w1" using step [OF Cons.prems(1) h] .
    show ?thesis
    proof (cases "r1 \<le> MNL_CB_STOP")
      case True
      with Cons.prems(2) NlData h i1 show ?thesis by simp
    next
      case False
      with Cons.prems(2) NlData h have "mnl_cb_run_from r1 ms cb d1 w1 = (r, d', w')" by simp
      from Cons.IH [OF i1 this] show ?thesis .
    qed
  next
    case NlNoop
    with Cons show ?thesis by (auto simp: MNL_CB_OK_def MNL_CB_STOP_def)
  next
    case NlDone
    with Cons show ?thesis by (auto simp: MNL_CB_STOP_def)
  next
    case (NlError e)
    with Cons.prems eno show ?thesis
      by (auto simp: MNL_CB_STOP_def MNL_CB_ERROR_def split: if_splits)
  qed
qed

lemma mnlg_socket_recv_run_invariant:
  assumes step: "\<And>g d w r d' w'. I d w \<Longrightarrow> cb g d w = (r, d', w') \<Longrightarrow> I d' w'"
    and eno: "\<And>d w e. I d w \<Longrightarrow> I d (w\<lparr>errno := e\<rparr>)"
  shows "I d w \<Longrightarrow> mnlg_socket_recv_run nlg q B cb d w = (out, nlg', q', d', w') \<Longrightarrow> I d' w'"
proof (induction q arbitrary: nlg d w)
  case Nil
  then show ?case using eno by (auto simp: mnlg_socket_recv_run_Nil split: if_splits)
next
  case (Cons ev q)
  show ?case
  proof (cases ev)
    case (RxFail e)
    with Cons.prems eno show ?thesis by (auto simp: mnlg_socket_recv_run_RxFail)
  next
    case (Rx dg)
    obtain r1 d1 w1 where h: "mnl_cb_run (msgs dg) cb d w = (r1, d1, w1)"
      by (cases "mnl_cb_run (msgs dg) cb d w") auto
    have i1: "I d1 w1"
    proof (rule mnl_cb_run_from_invariant [where I = I and cb = cb and d = d and w = w
          and ?r0.0 = MNL_CB_OK and ms = "msgs dg" and r = r1])
      show "I d w" by (rule Cons.prems(1))
      show "mnl_cb_run_from MNL_CB_OK (msgs dg) cb d w = (r1, d1, w1)"
        using h by (simp add: mnl_cb_run_def)
    qed (erule (1) step, erule eno)
    show ?thesis
      using Cons.prems Rx h i1 eno Cons.IH [OF i1]
      by (auto simp: mnlg_socket_recv_run_Rx split: if_splits)
  qed
qed

subsection \<open>Dispatch without a callback\<close>

lemma psample_event_handler_no_callbacks:
  assumes "msg_cb d = None" "config_cb d = None"
  shows "\<exists>e. psample_event_handler g d w = (MNL_CB_OK, d, w\<lparr>errno := e\<rparr>)"
  using assms
  by (auto simp: psample_event_handler_def Let_def split: prod.splits)

lemma mnl_cb_run_from_no_callbacks:
  assumes "msg_cb d = None" "config_cb d = None"
  shows "list_all is_data ms \<Longrightarrow> 0 < rz \<Longrightarrow>
    \<exists>r e. 0 < r \<and> mnl_cb_run_from rz ms psample_event_handler d (w\<lparr>errno := ez\<rparr>) =
              (r, d, w\<lparr>errno := e\<rparr>)"
proof (induction ms arbitrary: rz ez)
  case Nil
  then show ?case by auto
next
  case (Cons m ms)
  then obtain g where m: "m = NlData g" by (cases m) auto
  from psample_event_handler_no_callbacks [OF assms, where g = g and w = "w\<lparr>errno := ez\<rparr>"]
  obtain e1 where h: "psample_event_handler g d (w\<lparr>errno := ez\<rparr>) = (MNL_CB_OK, d, w\<lparr>errno := e1\<rparr>)"
    by auto
  from Cons.prems have "list_all is_data ms" by simp
  from Cons.IH [OF this, where rz = MNL_CB_OK and ez = e1]
  show ?case using m h by (auto simp: MNL_CB_OK_def MNL_CB_STOP_def)
qed

lemma mnlg_socket_recv_run_no_callbacks:
  assumes "msg_cb d = None" "config_cb d = None"
  shows "list_all (plain_rx B) q \<Longrightarrow> nonblock nlg \<Longrightarrow>
    \<exists>nlg'. mnlg_socket_recv_run nlg q B psample_event_handler d (w\<lparr>errno := ez\<rparr>) =
              (Returns (- 1), nlg', [], d, w\<lparr>errno := EWOULDBLOCK\<rparr>)"
proof (induction q arbitrary: nlg ez)
  case Nil
  then show ?case by (simp add: mnlg_socket_recv_run_Nil)
next
  case (Cons ev q)
  then obtain dg where ev: "ev = Rx dg" "raw dg \<noteq> []" "length (raw dg) \<le> B"
    "list_all is_data (msgs dg)"
    by (cases ev) auto
  from mnl_cb_run_from_no_callbacks [OF assms ev(4), where rz = MNL_CB_OK and w = w and ez = ez]
  obtain r e1 where r: "0 < r"
    "mnl_cb_run (msgs dg) psample_event_handler d (w\<lparr>errno := ez\<rparr>) = (r, d, w\<lparr>errno := e1\<rparr>)"
    by (auto simp: mnl_cb_run_def MNL_CB_OK_def)
  from Cons.prems have q: "list_all (plain_rx B) q" by simp
  have nb: "nonblock (nlg\<lparr>nl_buf := raw dg @ drop (length (raw dg)) (nl_buf nlg)\<rparr>)"
    using Cons.prems by simp
  from Cons.IH [OF q nb, where ez = e1]
  show ?case using ev r by (simp add: mnlg_socket_recv_run_Rx)
qed


text \<open>
  C1.  A non-blocking dispatch in which no callback runs returns the value
  \<open>cb_retval\<close> had before it was ever assigned, \<open>junk\<close>, and not zero: with both
  callbacks null, after all of a queue of plain traffic is consumed; and with any
  callbacks on an empty queue.
\<close>

theorem psample_dispatch_no_callback:
  "(list_all (plain_rx (MNL_SOCKET_BUFFER_SIZE ps)) q \<longrightarrow>
      (case psample_dispatch lg ps None junk (Some h) q None md None cd False w of
         (r, hd', q', w') \<Rightarrow> r = Returns junk \<and> q' = [] \<and> calls w' = calls w)) \<and>
   psample_dispatch lg ps None junk (Some h) [] mcb md ccb cd False w =
     (Returns junk, Some (h\<lparr>sample_nlh := (sample_nlh h)\<lparr>nonblock := True\<rparr>\<rparr>), [],
      w\<lparr>errno := EWOULDBLOCK\<rparr>)"
proof (intro conjI impI)
  let ?d = "\<lparr>msg_cb = None, config_cb = None, config_cb_data = cd, msg_cb_data = md,
             cb_retval = junk\<rparr> :: 'a psample_event_handler_data"
  assume q: "list_all (plain_rx (MNL_SOCKET_BUFFER_SIZE ps)) q"
  have nb: "nonblock ((sample_nlh h)\<lparr>nonblock := True\<rparr>)" by simp
  from mnlg_socket_recv_run_no_callbacks [where d = ?d and w = w and ez = "errno w", OF _ _ q nb]
  obtain nlg' where
    "mnlg_socket_recv_run ((sample_nlh h)\<lparr>nonblock := True\<rparr>) q (MNL_SOCKET_BUFFER_SIZE ps)
       psample_event_handler ?d w = (Returns (- 1), nlg', [], ?d, w\<lparr>errno := EWOULDBLOCK\<rparr>)"
    by auto
  then show "case psample_dispatch lg ps None junk (Some h) q None md None cd False w of
         (r, hd', q', w') \<Rightarrow> r = Returns junk \<and> q' = [] \<and> calls w' = calls w"
    by (simp add: psample_dispatch_def psample_set_blocking_def Let_def)
next
  show "psample_dispatch lg ps None junk (Some h) [] mcb md ccb cd False w =
     (Returns junk, Some (h\<lparr>sample_nlh := (sample_nlh h)\<lparr>nonblock := True\<rparr>\<rparr>), [],
      w\<lparr>errno := EWOULDBLOCK\<rparr>)"
    by (simp add: psample_dispatch_def psample_set_blocking_def Let_def mnlg_socket_recv_run_Nil)
qed

text \<open>
  With 7 on the stack: one sample message of group 7 and no callbacks, and an empty
  queue with both callbacks registered.
\<close>

theorem psample_dispatch_no_callback_witness:
  "(case psample_dispatch (\<lambda>e. e) 4096 None 7
          (Some \<lparr>sample_nlh = \<lparr>nl_buf = replicate 4096 0, nonblock = False, sk_filter = None\<rparr>,
                 control_nlh = \<lparr>nl_buf = replicate 4096 0, nonblock = False, sk_filter = None\<rparr>,
                 sample_filter_fprog = \<lparr>fprog_len = 0, fprog_filter = 0\<rparr>,
                 pcap = \<lparr>snaplen = 0, pcap_buf = [], pcap_dumper = []\<rparr>\<rparr>)
          [Rx \<lparr>raw = replicate 28 0,
               msgs = [NlData \<lparr>genl_cmd = 0,
                                genl_attrs = [\<lparr>nla_type = 3, nla_payload = [7, 0, 0, 0]\<rparr>]\<rparr>]\<rparr>]
          None 0 None 0 False
          (\<lparr>errno = 0, heap = (\<lambda>a. None), user = (), calls = []\<rparr> :: unit world) of
      (r, hd', q', w') \<Rightarrow> r = Returns 7 \<and> q' = [] \<and> calls w' = []) \<and>
   fst (psample_dispatch (\<lambda>e. e) 4096 None 7
          (Some \<lparr>sample_nlh = \<lparr>nl_buf = replicate 4096 0, nonblock = False, sk_filter = None\<rparr>,
                 control_nlh = \<lparr>nl_buf = replicate 4096 0, nonblock = False, sk_filter = None\<rparr>,
                 sample_filter_fprog = \<lparr>fprog_len = 0, fprog_filter = 0\<rparr>,
                 pcap = \<lparr>snaplen = 0, pcap_buf = [], pcap_dumper = []\<rparr>\<rparr>)
          []
          (Some (\<lambda>m c u. (0, u))) 0 (Some (\<lambda>m c u. (0, u))) 0 False
          (\<lparr>errno = 0, heap = (\<lambda>a. None), user = (), calls = []\<rparr> :: unit world)) = Returns 7"
  using psample_dispatch_no_callback [where ps = 4096 and junk = 7
      and h = "\<lparr>sample_nlh = \<lparr>nl_buf = replicate 4096 0, nonblock = False, sk_filter = None\<rparr>,
                 control_nlh = \<lparr>nl_buf = replicate 4096 0, nonblock = False, sk_filter = None\<rparr>,
                 sample_filter_fprog = \<lparr>fprog_len = 0, fprog_filter = 0\<rparr>,
                 pcap = \<lparr>snaplen = 0, pcap_buf = [], pcap_dumper = []\<rparr>\<rparr>"
      and q = "[Rx \<lparr>raw = replicate 28 0,
               msgs = [NlData \<lparr>genl_cmd = 0,
                                genl_attrs = [\<lparr>nla_type = 3, nla_payload = [7, 0, 0, 0]\<rparr>]\<rparr>]\<rparr>]"
      and md = 0 and cd = 0 and mcb = "Some (\<lambda>m c u. (0, u))" and ccb = "Some (\<lambda>m c u. (0, u))"
      and w = "\<lparr>errno = 0, heap = (\<lambda>a. None), user = (), calls = []\<rparr> :: unit world"]
  by (simp add: MNL_SOCKET_BUFFER_SIZE_4096)

text \<open>
  C10.  \<open>psample_group_foreach\<close> has no test of its handle: on a null handle the
  first statement dereferences it, which is a fault, whatever the other arguments are.
  \<open>psample_dispatch\<close> and \<open>psample_bind_group\<close> test the handle first, log the
  failure and return an error code (\<open>-ENOMEM\<close> and \<open>-EINVAL\<close>); nothing is touched
  but \<open>errno\<close>, by the log call.
\<close>

theorem psample_group_foreach_null_handle:
  "psample_group_foreach lg le ps se junk frame None q gcb data w = (Faults NullDeref, None, q, w) \<and>
   psample_dispatch lg ps fe junk None q mcb md ccb cd block w =
     (Returns (- ENOMEM), None, q, w\<lparr>errno := lg (errno w)\<rparr>) \<and>
   psample_bind_group lg le dr m ar None g w = (Returns (- EINVAL), None, w\<lparr>errno := lg (errno w)\<rparr>)"
  by (simp add: psample_group_foreach_def psample_dispatch_def psample_bind_group_def)

theorem psample_group_foreach_null_handle_witness:
  "fst (psample_group_foreach (\<lambda>e. e) True 4096 None 0 4096 None [] (\<lambda>g c u. (0, u)) 0
     (\<lparr>errno = 0, heap = (\<lambda>a. None), user = (), calls = []\<rparr> :: unit world)) = Faults NullDeref \<and>
   fst (psample_dispatch (\<lambda>e. e) 4096 None 0 None [] None 0 None 0 False
     (\<lparr>errno = 0, heap = (\<lambda>a. None), user = (), calls = []\<rparr> :: unit world)) = Returns (- 12) \<and>
   fst (psample_bind_group (\<lambda>e. e) True None 4096 None None 1
     (\<lparr>errno = 0, heap = (\<lambda>a. None), user = (), calls = []\<rparr> :: unit world)) = Returns (- 22)"
  using psample_group_foreach_null_handle [where lg = "\<lambda>e. e" and le = True and ps = 4096 and se = None
      and junk = 0 and frame = 4096 and q = "[]" and gcb = "\<lambda>g c u. (0, u)" and data = 0
      and fe = None and mcb = None and ccb = None and md = 0 and cd = 0 and block = False
      and dr = None and m = 4096 and ar = None and g = 1
      and w = "\<lparr>errno = 0, heap = (\<lambda>a. None), user = (), calls = []\<rparr> :: unit world"]
  by (simp add: ENOMEM_def EINVAL_def)

section \<open>Properties of the attribute table decoder\<close>

lemmas attr_ids = PSAMPLE_ATTR_IIFINDEX_def PSAMPLE_ATTR_OIFINDEX_def PSAMPLE_ATTR_ORIGSIZE_def
  PSAMPLE_ATTR_SAMPLE_GROUP_def PSAMPLE_ATTR_GROUP_SEQ_def PSAMPLE_ATTR_SAMPLE_RATE_def
  PSAMPLE_ATTR_GROUP_REFCOUNT_def PSAMPLE_ATTR_MAX_def

lemma attr_cb_eq:
  "attr_cb a (tb, e) =
     (if attr_invalid a
      then (MNL_CB_ERROR, tb, if PSAMPLE_ATTR_MAX < mnl_attr_get_type a then EOPNOTSUPP else ERANGE)
      else (MNL_CB_OK, tb[mnl_attr_get_type a := Some a], e))"
  by (auto simp: attr_cb_def attr_invalid_def mnl_attr_type_valid_def mnl_attr_validate_def
      mnl_attr_get_payload_len_def mnl_attr_data_type_len_def attr_ids Let_def)

lemma mnl_attr_parse_from_stops:
  assumes "attr_invalid bad"
  shows "list_all (\<lambda>a. \<not> attr_invalid a) pre \<Longrightarrow>
    mnl_attr_parse_from rz (pre @ bad # post) attr_cb (tb, e) =
      (MNL_CB_ERROR, fst (snd (mnl_attr_parse_from rz pre attr_cb (tb, e))),
       if PSAMPLE_ATTR_MAX < mnl_attr_get_type bad then EOPNOTSUPP else ERANGE)"
proof (induction pre arbitrary: rz tb)
  case Nil
  then show ?case using assms by (simp add: attr_cb_eq MNL_CB_ERROR_def MNL_CB_STOP_def)
next
  case (Cons a pre)
  then show ?case by (simp add: attr_cb_eq MNL_CB_OK_def MNL_CB_STOP_def)
qed

lemma psample_event_handler_ret:
  "fst (psample_event_handler g d w) = MNL_CB_OK \<or> fst (psample_event_handler g d w) = MNL_CB_STOP"
  by (auto simp: psample_event_handler_def Let_def split: prod.splits option.splits)

lemma psample_dispatch_single:
  assumes dg: "raw dg \<noteq> []" "length (raw dg) \<le> MNL_SOCKET_BUFFER_SIZE ps" "msgs dg = [NlData g]"
    and h: "psample_event_handler g
              \<lparr>msg_cb = mcb, config_cb = ccb, config_cb_data = cd, msg_cb_data = md,
               cb_retval = junk\<rparr> w = (r, d', w')"
  shows "fst (psample_dispatch lg ps None junk (Some hh) [Rx dg] mcb md ccb cd False w) =
           Returns (cb_retval d')"
proof -
  from psample_event_handler_ret [of g "\<lparr>msg_cb = mcb, config_cb = ccb, config_cb_data = cd,
      msg_cb_data = md, cb_retval = junk\<rparr>" w] h
  have "r = MNL_CB_OK \<or> r = MNL_CB_STOP" by simp
  then show ?thesis
    using dg h
    by (auto simp: psample_dispatch_def psample_set_blocking_def Let_def mnlg_socket_recv_run_Rx
        mnlg_socket_recv_run_Nil mnl_cb_run_def MNL_CB_OK_def MNL_CB_STOP_def)
qed


lemma psample_event_handler_msg:
  assumes "genl_cmd g = PSAMPLE_CMD_SAMPLE" "msg_cb d = Some cb"
    and "cb \<lparr>msg_tb = fst (snd (mnl_attr_parse (genl_attrs g) attr_cb (empty_tb, errno w)))\<rparr>
           (msg_cb_data d) (user w) = (ret, u')"
  shows "psample_event_handler g d w =
     (if ret \<noteq> 0 then MNL_CB_STOP else MNL_CB_OK, d\<lparr>cb_retval := ret\<rparr>,
      w\<lparr>errno := snd (snd (mnl_attr_parse (genl_attrs g) attr_cb (empty_tb, errno w))),
        user := u',
        calls := calls w @
          [MsgCall \<lparr>msg_tb = fst (snd (mnl_attr_parse (genl_attrs g) attr_cb (empty_tb, errno w)))\<rparr>
             (msg_cb_data d) ret]\<rparr>)"
proof -
  obtain r tb e where p: "mnl_attr_parse (genl_attrs g) attr_cb (empty_tb, errno w) = (r, tb, e)"
    by (cases "mnl_attr_parse (genl_attrs g) attr_cb (empty_tb, errno w)") auto
  show ?thesis
    using assms by (simp add: psample_event_handler_def Let_def p)
qed

lemma psample_event_handler_config:
  assumes "genl_cmd g \<noteq> PSAMPLE_CMD_SAMPLE \<or> msg_cb d = None" "config_cb d = Some cb"
    and "cb \<lparr>config_cmd = genl_cmd g,
             config_tb = fst (snd (mnl_attr_parse (genl_attrs g) attr_cb (empty_tb, errno w)))\<rparr>
           (config_cb_data d) (user w) = (ret, u')"
  shows "psample_event_handler g d w =
     (if ret \<noteq> 0 then MNL_CB_STOP else MNL_CB_OK, d\<lparr>cb_retval := ret\<rparr>,
      w\<lparr>errno := snd (snd (mnl_attr_parse (genl_attrs g) attr_cb (empty_tb, errno w))),
        user := u',
        calls := calls w @
          [ConfigCall \<lparr>config_cmd = genl_cmd g,
              config_tb = fst (snd (mnl_attr_parse (genl_attrs g) attr_cb (empty_tb, errno w)))\<rparr>
             (config_cb_data d) ret]\<rparr>)"
proof -
  obtain r tb e where p: "mnl_attr_parse (genl_attrs g) attr_cb (empty_tb, errno w) = (r, tb, e)"
    by (cases "mnl_attr_parse (genl_attrs g) attr_cb (empty_tb, errno w)") auto
  show ?thesis
    using assms by (auto simp: psample_event_handler_def Let_def p)
qed

text \<open>
  C2, as the code has it.  In a message whose attributes are \<open>pre\<close>, all accepted, then
  \<open>bad\<close>, refused, then \<open>post\<close>: the walk ends with \<open>MNL_CB_ERROR\<close> and the table
  is the one \<open>pre\<close> alone gives, so nothing from \<open>bad\<close> on is entered.
  \<open>psample_event_handler\<close> drops that result: the callback the command selects is
  invoked with this table, and a non-blocking dispatch of the message returns the
  callback's value.
\<close>

theorem attr_decode_stops_at_invalid:
  assumes pre: "list_all (\<lambda>a. \<not> attr_invalid a) pre" and bad: "attr_invalid bad"
    and g: "genl_attrs g = pre @ bad # post"
    and dg: "raw dg \<noteq> []" "length (raw dg) \<le> MNL_SOCKET_BUFFER_SIZE ps" "msgs dg = [NlData g]"
  shows "fst (mnl_attr_parse (genl_attrs g) attr_cb (empty_tb, errno w)) = MNL_CB_ERROR \<and>
     fst (snd (mnl_attr_parse (genl_attrs g) attr_cb (empty_tb, errno w))) =
       fst (snd (mnl_attr_parse pre attr_cb (empty_tb, errno w))) \<and>
     (genl_cmd g = PSAMPLE_CMD_SAMPLE \<and>
      cb \<lparr>msg_tb = fst (snd (mnl_attr_parse pre attr_cb (empty_tb, errno w)))\<rparr> md (user w) =
        (ret, u') \<longrightarrow>
        calls (snd (snd (psample_event_handler g
           \<lparr>msg_cb = Some cb, config_cb = ccb, config_cb_data = cd, msg_cb_data = md,
            cb_retval = junk\<rparr> w))) =
          calls w @ [MsgCall \<lparr>msg_tb = fst (snd (mnl_attr_parse pre attr_cb (empty_tb, errno w)))\<rparr>
                       md ret] \<and>
        fst (psample_dispatch lg ps None junk (Some h) [Rx dg] (Some cb) md ccb cd False w) =
          Returns ret) \<and>
     ((genl_cmd g \<noteq> PSAMPLE_CMD_SAMPLE \<or> mcb = None) \<and>
      cfg \<lparr>config_cmd = genl_cmd g,
           config_tb = fst (snd (mnl_attr_parse pre attr_cb (empty_tb, errno w)))\<rparr> cd (user w) =
        (ret, u') \<longrightarrow>
        calls (snd (snd (psample_event_handler g
           \<lparr>msg_cb = mcb, config_cb = Some cfg, config_cb_data = cd, msg_cb_data = md,
            cb_retval = junk\<rparr> w))) =
          calls w @ [ConfigCall \<lparr>config_cmd = genl_cmd g,
                        config_tb = fst (snd (mnl_attr_parse pre attr_cb (empty_tb, errno w)))\<rparr>
                       cd ret] \<and>
        fst (psample_dispatch lg ps None junk (Some h) [Rx dg] mcb md (Some cfg) cd False w) =
          Returns ret)"
proof -
  let ?T = "fst (snd (mnl_attr_parse pre attr_cb (empty_tb, errno w)))"
  have p: "mnl_attr_parse (genl_attrs g) attr_cb (empty_tb, errno w) =
      (MNL_CB_ERROR, ?T, if PSAMPLE_ATTR_MAX < mnl_attr_get_type bad then EOPNOTSUPP else ERANGE)"
    unfolding g mnl_attr_parse_def by (rule mnl_attr_parse_from_stops [OF bad pre])
  have c1: "fst (mnl_attr_parse (genl_attrs g) attr_cb (empty_tb, errno w)) = MNL_CB_ERROR"
    by (simp add: p)
  have c2: "fst (snd (mnl_attr_parse (genl_attrs g) attr_cb (empty_tb, errno w))) = ?T"
    by (simp add: p)
  have c3: "calls (snd (snd (psample_event_handler g
           \<lparr>msg_cb = Some cb, config_cb = ccb, config_cb_data = cd, msg_cb_data = md,
            cb_retval = junk\<rparr> w))) = calls w @ [MsgCall \<lparr>msg_tb = ?T\<rparr> md ret] \<and>
        fst (psample_dispatch lg ps None junk (Some h) [Rx dg] (Some cb) md ccb cd False w) =
          Returns ret"
    if a: "genl_cmd g = PSAMPLE_CMD_SAMPLE" "cb \<lparr>msg_tb = ?T\<rparr> md (user w) = (ret, u')"
  proof -
    let ?d = "\<lparr>msg_cb = Some cb, config_cb = ccb, config_cb_data = cd, msg_cb_data = md,
            cb_retval = junk\<rparr>"
    have e: "psample_event_handler g ?d w =
       (if ret \<noteq> 0 then MNL_CB_STOP else MNL_CB_OK, ?d\<lparr>cb_retval := ret\<rparr>,
        w\<lparr>errno := snd (snd (mnl_attr_parse (genl_attrs g) attr_cb (empty_tb, errno w))),
          user := u',
          calls := calls w @
            [MsgCall \<lparr>msg_tb = fst (snd (mnl_attr_parse (genl_attrs g) attr_cb (empty_tb, errno w)))\<rparr>
               (msg_cb_data ?d) ret]\<rparr>)"
      by (rule psample_event_handler_msg [where cb = cb and ret = ret and u' = u'])
         (use a c2 in simp_all)
    from psample_dispatch_single [OF dg e, where hh = h and lg = lg]
    show ?thesis by (simp add: e c2)
  qed
  have c4: "calls (snd (snd (psample_event_handler g
           \<lparr>msg_cb = mcb, config_cb = Some cfg, config_cb_data = cd, msg_cb_data = md,
            cb_retval = junk\<rparr> w))) =
          calls w @ [ConfigCall \<lparr>config_cmd = genl_cmd g, config_tb = ?T\<rparr> cd ret] \<and>
        fst (psample_dispatch lg ps None junk (Some h) [Rx dg] mcb md (Some cfg) cd False w) =
          Returns ret"
    if a: "genl_cmd g \<noteq> PSAMPLE_CMD_SAMPLE \<or> mcb = None"
      "cfg \<lparr>config_cmd = genl_cmd g, config_tb = ?T\<rparr> cd (user w) = (ret, u')"
  proof -
    let ?d = "\<lparr>msg_cb = mcb, config_cb = Some cfg, config_cb_data = cd, msg_cb_data = md,
            cb_retval = junk\<rparr>"
    have e: "psample_event_handler g ?d w =
       (if ret \<noteq> 0 then MNL_CB_STOP else MNL_CB_OK, ?d\<lparr>cb_retval := ret\<rparr>,
        w\<lparr>errno := snd (snd (mnl_attr_parse (genl_attrs g) attr_cb (empty_tb, errno w))),
          user := u',
          calls := calls w @
            [ConfigCall \<lparr>config_cmd = genl_cmd g,
                config_tb = fst (snd (mnl_attr_parse (genl_attrs g) attr_cb (empty_tb, errno w)))\<rparr>
               (config_cb_data ?d) ret]\<rparr>)"
      by (rule psample_event_handler_config [where cb = cfg and ret = ret and u' = u'])
         (use a c2 in simp_all)
    from psample_dispatch_single [OF dg e, where hh = h and lg = lg]
    show ?thesis by (simp add: e c2)
  qed
  from c1 c2 c3 c4 show ?thesis by blast
qed


lemma attr_eval:
  "\<not> attr_invalid \<lparr>nla_type = 0, nla_payload = [2, 0]\<rparr>"
  "attr_invalid \<lparr>nla_type = 5, nla_payload = [100, 0]\<rparr>"
  "mnl_attr_get_type \<lparr>nla_type = 0, nla_payload = [2, 0]\<rparr> = 0"
  "mnl_attr_get_type \<lparr>nla_type = 5, nla_payload = [100, 0]\<rparr> = 5"
  by (simp_all add: attr_invalid_def mnl_attr_get_type_def NLA_TYPE_MASK_def attr_ids)

lemma parse_eval:
  "mnl_attr_parse [\<lparr>nla_type = 0, nla_payload = [2, 0]\<rparr>] attr_cb (empty_tb, e) =
     (MNL_CB_OK, empty_tb[0 := Some \<lparr>nla_type = 0, nla_payload = [2, 0]\<rparr>], e)"
  by (simp add: mnl_attr_parse_def attr_cb_eq attr_eval MNL_CB_OK_def MNL_CB_STOP_def)

text \<open>
  The claim of C2 as stated fails: a sample message with a valid ingress index, a
  sample rate of two bytes and a group.  The rate is refused, yet a dispatch with a
  sample callback that returns 0 returns 0, not an error code, and the callback has
  been invoked with a table that holds the ingress index alone.
\<close>

theorem psample_dispatch_partial_table:
  "attr_invalid \<lparr>nla_type = 5, nla_payload = [100, 0]\<rparr> \<and>
   (case psample_dispatch (\<lambda>e. e) 4096 None 0
          (Some \<lparr>sample_nlh = \<lparr>nl_buf = replicate 4096 0, nonblock = False, sk_filter = None\<rparr>,
                 control_nlh = \<lparr>nl_buf = replicate 4096 0, nonblock = False, sk_filter = None\<rparr>,
                 sample_filter_fprog = \<lparr>fprog_len = 0, fprog_filter = 0\<rparr>,
                 pcap = \<lparr>snaplen = 0, pcap_buf = [], pcap_dumper = []\<rparr>\<rparr>)
          [Rx \<lparr>raw = replicate 44 0,
               msgs = [NlData \<lparr>genl_cmd = 0,
                         genl_attrs = [\<lparr>nla_type = 0, nla_payload = [2, 0]\<rparr>,
                                       \<lparr>nla_type = 5, nla_payload = [100, 0]\<rparr>,
                                       \<lparr>nla_type = 3, nla_payload = [7, 0, 0, 0]\<rparr>]\<rparr>]\<rparr>]
          (Some (\<lambda>m c u. (0, u))) 0 None 0 False
          (\<lparr>errno = 0, heap = (\<lambda>a. None), user = (), calls = []\<rparr> :: unit world) of
      (r, hd', q', w') \<Rightarrow>
        r = Returns 0 \<and>
        calls w' = [MsgCall \<lparr>msg_tb = empty_tb[0 := Some \<lparr>nla_type = 0, nla_payload = [2, 0]\<rparr>]\<rparr>
                      0 0])"
proof -
  have p: "mnl_attr_parse [\<lparr>nla_type = 0, nla_payload = [2, 0]\<rparr>,
                           \<lparr>nla_type = 5, nla_payload = [100, 0]\<rparr>,
                           \<lparr>nla_type = 3, nla_payload = [7, 0, 0, 0]\<rparr>] attr_cb (empty_tb, 0) =
      (MNL_CB_ERROR, empty_tb[0 := Some \<lparr>nla_type = 0, nla_payload = [2, 0]\<rparr>], ERANGE)"
    by (simp add: mnl_attr_parse_def attr_cb_eq attr_eval MNL_CB_OK_def MNL_CB_STOP_def
        MNL_CB_ERROR_def PSAMPLE_ATTR_MAX_def)
  show ?thesis
    by (simp add: attr_eval psample_dispatch_def psample_set_blocking_def Let_def
        MNL_SOCKET_BUFFER_SIZE_4096 mnlg_socket_recv_run_Rx mnlg_socket_recv_run_Nil
        mnl_cb_run_def psample_event_handler_def p PSAMPLE_CMD_SAMPLE_def
        MNL_CB_OK_def MNL_CB_STOP_def EWOULDBLOCK_def)
qed

text \<open>
  The same message: the walk fails, the table is that of the ingress index alone, and
  the dispatch returns the 0 of the callback.
\<close>

theorem attr_decode_stops_at_invalid_witness:
  "fst (mnl_attr_parse [\<lparr>nla_type = 0, nla_payload = [2, 0]\<rparr>,
                        \<lparr>nla_type = 5, nla_payload = [100, 0]\<rparr>,
                        \<lparr>nla_type = 3, nla_payload = [7, 0, 0, 0]\<rparr>] attr_cb (empty_tb, 0)) =
     MNL_CB_ERROR \<and>
   fst (snd (mnl_attr_parse [\<lparr>nla_type = 0, nla_payload = [2, 0]\<rparr>,
                        \<lparr>nla_type = 5, nla_payload = [100, 0]\<rparr>,
                        \<lparr>nla_type = 3, nla_payload = [7, 0, 0, 0]\<rparr>] attr_cb (empty_tb, 0))) =
     empty_tb[0 := Some \<lparr>nla_type = 0, nla_payload = [2, 0]\<rparr>] \<and>
   fst (psample_dispatch (\<lambda>e. e) 4096 None 0
          (Some \<lparr>sample_nlh = \<lparr>nl_buf = replicate 4096 0, nonblock = False, sk_filter = None\<rparr>,
                 control_nlh = \<lparr>nl_buf = replicate 4096 0, nonblock = False, sk_filter = None\<rparr>,
                 sample_filter_fprog = \<lparr>fprog_len = 0, fprog_filter = 0\<rparr>,
                 pcap = \<lparr>snaplen = 0, pcap_buf = [], pcap_dumper = []\<rparr>\<rparr>)
          [Rx \<lparr>raw = replicate 44 0,
               msgs = [NlData \<lparr>genl_cmd = 0,
                         genl_attrs = [\<lparr>nla_type = 0, nla_payload = [2, 0]\<rparr>,
                                       \<lparr>nla_type = 5, nla_payload = [100, 0]\<rparr>,
                                       \<lparr>nla_type = 3, nla_payload = [7, 0, 0, 0]\<rparr>]\<rparr>]\<rparr>]
          (Some (\<lambda>m c u. (0, u))) 0 None 0 False
          (\<lparr>errno = 0, heap = (\<lambda>a. None), user = (), calls = []\<rparr> :: unit world)) = Returns 0"
  using attr_decode_stops_at_invalid [where pre = "[\<lparr>nla_type = 0, nla_payload = [2, 0]\<rparr>]"
      and bad = "\<lparr>nla_type = 5, nla_payload = [100, 0]\<rparr>"
      and post = "[\<lparr>nla_type = 3, nla_payload = [7, 0, 0, 0]\<rparr>]"
      and g = "\<lparr>genl_cmd = 0,
                genl_attrs = [\<lparr>nla_type = 0, nla_payload = [2, 0]\<rparr>,
                              \<lparr>nla_type = 5, nla_payload = [100, 0]\<rparr>,
                              \<lparr>nla_type = 3, nla_payload = [7, 0, 0, 0]\<rparr>]\<rparr>"
      and dg = "\<lparr>raw = replicate 44 0,
               msgs = [NlData \<lparr>genl_cmd = 0,
                         genl_attrs = [\<lparr>nla_type = 0, nla_payload = [2, 0]\<rparr>,
                                       \<lparr>nla_type = 5, nla_payload = [100, 0]\<rparr>,
                                       \<lparr>nla_type = 3, nla_payload = [7, 0, 0, 0]\<rparr>]\<rparr>]\<rparr>"
      and ps = 4096 and cb = "\<lambda>m c u. (0, u)" and cfg = "\<lambda>m c u. (0, u)" and ret = 0
      and u' = "()" and md = 0 and cd = 0 and ccb = None and mcb = None and junk = 0
      and h = "\<lparr>sample_nlh = \<lparr>nl_buf = replicate 4096 0, nonblock = False, sk_filter = None\<rparr>,
                 control_nlh = \<lparr>nl_buf = replicate 4096 0, nonblock = False, sk_filter = None\<rparr>,
                 sample_filter_fprog = \<lparr>fprog_len = 0, fprog_filter = 0\<rparr>,
                 pcap = \<lparr>snaplen = 0, pcap_buf = [], pcap_dumper = []\<rparr>\<rparr>"
      and w = "\<lparr>errno = 0, heap = (\<lambda>a. None), user = (), calls = []\<rparr> :: unit world"]
  by (simp add: attr_eval parse_eval MNL_SOCKET_BUFFER_SIZE_4096 PSAMPLE_CMD_SAMPLE_def)

section \<open>Properties of the callbacks' invocations\<close>

lemma group_handle_step:
  assumes "group_handle le frame g d w = (r, d', w')"
  shows "(calls w' = calls w \<and> group_cb_retval d' = group_cb_retval d) \<or>
         (\<exists>c. calls w' = calls w @ [c] \<and> group_cb_retval d' = call_ret c \<and>
              call_ctx c = frame + offsetof_cb_data \<and>
              r = (if call_ret c \<noteq> 0 then MNL_CB_STOP else MNL_CB_OK))"
proof -
  obtain r0 tb e where p: "mnl_attr_parse (genl_attrs g) attr_cb (empty_tb, errno w) = (r0, tb, e)"
    by (cases "mnl_attr_parse (genl_attrs g) attr_cb (empty_tb, errno w)") auto
  show ?thesis
    using assms
    by (auto simp: group_handle_def p Let_def split: option.splits prod.splits)
qed


text \<open>
  C6.  Every callback invocation \<open>psample_group_foreach\<close> makes passes the address
  of the field \<open>cb_data\<close> of its local \<open>group_handler_data\<close>, \<open>frame + 8\<close>, as the
  context: a pointer to the slot that holds the caller's value, not the value \<open>data\<close>
  itself.
\<close>

theorem psample_group_foreach_context:
  assumes "calls w = []"
  shows "list_all (\<lambda>c. call_ctx c = frame + offsetof_cb_data)
           (calls (snd (snd (snd (psample_group_foreach lg le ps se junk frame hnd q gcb data w)))))"
proof (cases hnd)
  case None
  then show ?thesis using assms by (simp add: psample_group_foreach_def)
next
  case (Some h)
  show ?thesis
  proof (cases se)
    case (Some e)
    then show ?thesis using assms \<open>hnd = Some h\<close> by (simp add: psample_group_foreach_def)
  next
    case None
    let ?d = "\<lparr>group_cb = gcb, group_cb_data = data, group_cb_retval = junk\<rparr>"
    let ?I = "\<lambda>(d :: 'a psample_group_handler_data) (w :: 'a world).
        list_all (\<lambda>c. call_ctx c = frame + offsetof_cb_data) (calls w)"
    obtain out nlg' q' d' w' where
      run: "mnlg_socket_recv_run (control_nlh h) q (MNL_SOCKET_BUFFER_SIZE ps)
              (group_handle le frame) ?d w = (out, nlg', q', d', w')"
      by (cases "mnlg_socket_recv_run (control_nlh h) q (MNL_SOCKET_BUFFER_SIZE ps)
              (group_handle le frame) ?d w") auto
    have "?I d' w'"
    proof (rule mnlg_socket_recv_run_invariant [where I = ?I and cb = "group_handle le frame"
          and d = ?d and w = w, OF _ _ _ run])
      show "?I ?d w" using assms by simp
    next
      fix g d w r d' w'
      assume "?I d w" "group_handle le frame g d w = (r, d', w')"
      then show "?I d' w'" using group_handle_step [of le frame g d w r d' w'] by auto
    next
      fix d :: "'a psample_group_handler_data" and w :: "'a world" and e
      assume "?I d w"
      then show "?I d (w\<lparr>errno := e\<rparr>)" by simp
    qed
    then show ?thesis
      using \<open>hnd = Some h\<close> None run
      by (auto simp: psample_group_foreach_def Let_def split: outcome.splits)
  qed
qed


lemma group_attr_eval:
  "mnl_attr_get_type \<lparr>nla_type = 3, nla_payload = [a, b, c, d]\<rparr> = 3"
  "mnl_attr_get_type \<lparr>nla_type = 7, nla_payload = [a, b, c, d]\<rparr> = 7"
  "mnl_attr_get_type \<lparr>nla_type = 4, nla_payload = [a, b, c, d]\<rparr> = 4"
  "\<not> attr_invalid \<lparr>nla_type = 3, nla_payload = [a, b, c, d]\<rparr>"
  "\<not> attr_invalid \<lparr>nla_type = 7, nla_payload = [a, b, c, d]\<rparr>"
  "\<not> attr_invalid \<lparr>nla_type = 4, nla_payload = [a, b, c, d]\<rparr>"
  by (simp_all add: attr_invalid_def mnl_attr_get_type_def NLA_TYPE_MASK_def attr_ids)

lemma group_parse_eval:
  "mnl_attr_parse [\<lparr>nla_type = 3, nla_payload = [a, 0, 0, 0]\<rparr>,
                   \<lparr>nla_type = 7, nla_payload = [b, 0, 0, 0]\<rparr>,
                   \<lparr>nla_type = 4, nla_payload = [c, 0, 0, 0]\<rparr>] attr_cb (empty_tb, e) =
     (MNL_CB_OK,
      [None, None, None, Some \<lparr>nla_type = 3, nla_payload = [a, 0, 0, 0]\<rparr>,
       Some \<lparr>nla_type = 4, nla_payload = [c, 0, 0, 0]\<rparr>, None, None,
       Some \<lparr>nla_type = 7, nla_payload = [b, 0, 0, 0]\<rparr>,
       None, None, None, None, None, None, None], e)"
  by (simp add: mnl_attr_parse_def attr_cb_eq group_attr_eval MNL_CB_OK_def MNL_CB_STOP_def
      empty_tb_def PSAMPLE_ATTR_MAX_def numeral_eq_Suc)

lemma mnl_attr_get_u32_le_byte:
  "mnl_attr_get_u32 True \<lparr>nla_type = t, nla_payload = [a, 0, 0, 0]\<rparr> = ucast a"
  by (simp add: mnl_attr_get_u32_def of_host_bytes_def of_be_bytes_def)

lemma group_handle_eval:
  "group_handle True frame
     \<lparr>genl_cmd = cmd,
      genl_attrs = [\<lparr>nla_type = 3, nla_payload = [a, 0, 0, 0]\<rparr>,
                    \<lparr>nla_type = 7, nla_payload = [b, 0, 0, 0]\<rparr>,
                    \<lparr>nla_type = 4, nla_payload = [c, 0, 0, 0]\<rparr>]\<rparr> d w =
   (case group_cb d \<lparr>group_num = ucast a, group_refcount = ucast b, group_seq = ucast c\<rparr>
           (frame + 8) (user w) of
      (ret, u') \<Rightarrow>
        (if ret \<noteq> 0 then MNL_CB_STOP else MNL_CB_OK, d\<lparr>group_cb_retval := ret\<rparr>,
         w\<lparr>user := u',
           calls := calls w @
             [GroupCall \<lparr>group_num = ucast a, group_refcount = ucast b, group_seq = ucast c\<rparr>
                (frame + 8) ret]\<rparr>))"
  by (simp add: group_handle_def group_parse_eval attr_ids Let_def mnl_attr_get_u32_le_byte
      offsetof_cb_data_def split: prod.splits)

text \<open>
  A dump of one group, with \<open>group_handler_data\<close> at address 8192 and the caller's
  context 1234.  The callback stores the context it is given: it is given 8200.
\<close>

theorem psample_group_foreach_context_witness:
  "(case psample_group_foreach (\<lambda>e. e) True 4096 None 0 8192
          (Some \<lparr>sample_nlh = \<lparr>nl_buf = replicate 4096 0, nonblock = False, sk_filter = None\<rparr>,
                 control_nlh = \<lparr>nl_buf = replicate 4096 0, nonblock = False, sk_filter = None\<rparr>,
                 sample_filter_fprog = \<lparr>fprog_len = 0, fprog_filter = 0\<rparr>,
                 pcap = \<lparr>snaplen = 0, pcap_buf = [], pcap_dumper = []\<rparr>\<rparr>)
          [Rx \<lparr>raw = replicate 64 0,
               msgs = [NlData \<lparr>genl_cmd = 1,
                         genl_attrs = [\<lparr>nla_type = 3, nla_payload = [5, 0, 0, 0]\<rparr>,
                                       \<lparr>nla_type = 7, nla_payload = [1, 0, 0, 0]\<rparr>,
                                       \<lparr>nla_type = 4, nla_payload = [9, 0, 0, 0]\<rparr>]\<rparr>,
                       NlDone]\<rparr>]
          (\<lambda>g c u. (0, u @ [c])) 1234
          (\<lparr>errno = 0, heap = (\<lambda>a. None), user = [], calls = []\<rparr> :: nat list world) of
      (r, hnd', q', w') \<Rightarrow>
        r = Returns 0 \<and> user w' = [8200] \<and>
        calls w' = [GroupCall \<lparr>group_num = 5, group_refcount = 1, group_seq = 9\<rparr> 8200 0])"
  using psample_group_foreach_context [where le = True and ps = 4096 and se = None and junk = 0
      and frame = 8192 and data = 1234 and gcb = "\<lambda>g c u. (0, u @ [c])"
      and hnd = "Some \<lparr>sample_nlh = \<lparr>nl_buf = replicate 4096 0, nonblock = False, sk_filter = None\<rparr>,
                 control_nlh = \<lparr>nl_buf = replicate 4096 0, nonblock = False, sk_filter = None\<rparr>,
                 sample_filter_fprog = \<lparr>fprog_len = 0, fprog_filter = 0\<rparr>,
                 pcap = \<lparr>snaplen = 0, pcap_buf = [], pcap_dumper = []\<rparr>\<rparr>"
      and q = "[Rx \<lparr>raw = replicate 64 0,
               msgs = [NlData \<lparr>genl_cmd = 1,
                         genl_attrs = [\<lparr>nla_type = 3, nla_payload = [5, 0, 0, 0]\<rparr>,
                                       \<lparr>nla_type = 7, nla_payload = [1, 0, 0, 0]\<rparr>,
                                       \<lparr>nla_type = 4, nla_payload = [9, 0, 0, 0]\<rparr>]\<rparr>,
                       NlDone]\<rparr>]"
      and w = "\<lparr>errno = 0, heap = (\<lambda>a. None), user = [], calls = []\<rparr> :: nat list world"]
  by (simp add: psample_group_foreach_def Let_def MNL_SOCKET_BUFFER_SIZE_4096
      mnlg_socket_recv_run_Rx mnl_cb_run_def group_handle_eval MNL_CB_OK_def MNL_CB_STOP_def
      offsetof_cb_data_def)


subsection \<open>Stopping at a non-zero return\<close>

lemma all_zero_simps [simp]:
  "all_zero []" "all_zero (cs @ [c]) \<longleftrightarrow> all_zero cs \<and> call_ret c = 0"
  by (simp_all add: all_zero_def)








subsection \<open>The invocations of a run\<close>

text \<open>
  A run over handlers that follow \<open>ivk\<close>, message by message, makes the invocations of
  \<open>spec_invocations\<close>: \<open>mnl_cb_run\<close> over the messages of a datagram, and
  \<open>mnlg_socket_recv_run\<close> over the datagrams of a plain queue, after which it goes on
  with the rest of the queue unless a callback has stopped it.
\<close>

lemma all_zero_Cons [simp]: "all_zero (c # cs) \<longleftrightarrow> call_ret c = 0 \<and> all_zero cs"
  by (simp add: all_zero_def)

lemma all_zero_append [simp]: "all_zero (cs @ cs') \<longleftrightarrow> all_zero cs \<and> all_zero cs'"
  by (simp add: all_zero_def)












lemma decoded_table_no_attrs: "decoded_table \<lparr>genl_cmd = cmd, genl_attrs = []\<rparr> = empty_tb"
  by (simp add: decoded_table_def mnl_attr_parse_def)




end
